theory Spec2Isabelle
  imports Complex_Main
begin

section \<open>Data model\<close>

text \<open>
  The repository holds three versions of one trading engine, each a Python class
  \<^verbatim>\<open>Trader\<close> with a per-tick entry point \<^verbatim>\<open>run(state)\<close>:
  \<^verbatim>\<open>ROUND-1/simple_mean_reversion.py\<close>, \<^verbatim>\<open>ROUND-2/premium_narrowdown.py\<close> and
  \<^verbatim>\<open>ROUND-3/short_itm.py\<close>. They are embedded below as \<open>r1_run\<close>, \<open>r2_run\<close> and
  \<open>r3_run\<close>.

  Numbers. Python's \<^verbatim>\<open>int\<close> is \<open>int\<close>. Python's \<^verbatim>\<open>float\<close> is idealised as \<open>real\<close>:
  rounding, overflow and the non-finite floats are outside the model.

  Exceptions are values of the type \<open>error\<close>; a function that can raise returns
  \<open>error + 'a\<close>, with \<open>Inl\<close> for the exception.
\<close>

datatype error =
  JSONDecodeError | KeyError | TypeError | AttributeError | ValueError | ZeroDivisionError

text \<open>\<^verbatim>\<open>datamodel.Order(symbol, price, quantity)\<close>: a positive quantity buys, a negative one sells.\<close>

record order =
  symbol :: string
  price :: int
  quantity :: int

text \<open>
  A Python \<^verbatim>\<open>dict\<close> is an association list. The dictionary an association list stands
  for has the keys \<open>dict_keys\<close> (each key once) and the value \<open>map_of d k\<close> at the key
  \<open>k\<close>; \<open>dict_items\<close> is what iterating over \<^verbatim>\<open>d.items()\<close> sees.
\<close>

type_synonym ('k, 'v) dict = "('k \<times> 'v) list"

definition dict_keys :: "('k, 'v) dict \<Rightarrow> 'k list" where
  "dict_keys d = remdups (map fst d)"

definition dict_items :: "('k, 'v) dict \<Rightarrow> ('k \<times> 'v) list" where
  "dict_items d = map (\<lambda>k. (k, the (map_of d k))) (dict_keys d)"

text \<open>\<^verbatim>\<open>d[k] = v\<close>: an existing key keeps its place, a new key goes last.\<close>

fun dict_set :: "('k, 'v) dict \<Rightarrow> 'k \<Rightarrow> 'v \<Rightarrow> ('k, 'v) dict" where
  "dict_set [] k v = [(k, v)]"
| "dict_set ((k', v') # d) k v = (if k' = k then (k, v) # d else (k', v') # dict_set d k v)"

text \<open>
  \<^verbatim>\<open>datamodel.OrderDepth\<close>: \<^verbatim>\<open>buy_orders\<close> and \<^verbatim>\<open>sell_orders\<close> map a price to a volume.
  The exchange lists bid volumes as positive and ask volumes as negative numbers; the type
  \<^verbatim>\<open>Dict[int, int]\<close> does not enforce it.
\<close>

record order_depth =
  buy_orders :: "(int, int) dict"
  sell_orders :: "(int, int) dict"

text \<open>
  JSON values, as \<^verbatim>\<open>json.loads\<close> returns them (\<^verbatim>\<open>None\<close>, \<^verbatim>\<open>bool\<close>, numbers, \<^verbatim>\<open>str\<close>,
  \<^verbatim>\<open>list\<close>, \<^verbatim>\<open>dict\<close>). The keys of a decoded object are strings (\<open>JStr\<close>); a dictionary of
  the engine can get other keys through \<^verbatim>\<open>dict.update\<close>, so a key is a JSON value here.
\<close>

datatype json =
  JNull | JBool bool | JNum real | JStr string | JArr "json list" | JObj "(json \<times> json) list"

text \<open>
  The persisted blob \<^verbatim>\<open>state.traderData\<close> is a string which the engines only test for
  emptiness and hand to \<^verbatim>\<open>json.loads\<close>. The JSON codec is a library outside the
  repository, so a blob is modelled by what these two operations make of it: the empty
  string, a non-empty string that \<^verbatim>\<open>json.loads\<close> rejects, or a non-empty string that
  \<^verbatim>\<open>json.loads\<close> decodes to a value. \<^verbatim>\<open>json.dumps(x)\<close> is the blob that decodes to \<open>x\<close>
  (it is never the empty string). This is the round trip the library documents for values
  whose dictionaries have string keys; \<^verbatim>\<open>json.dumps\<close> writes any other key as a string, so
  for such a value the blob decodes to something else, and nothing below relies on it.
\<close>

datatype blob = Blob_empty | Blob_undecodable | Blob_json json

definition json_loads :: "blob \<Rightarrow> error + json" where
  "json_loads b = (case b of Blob_json j \<Rightarrow> Inr j | _ \<Rightarrow> Inl JSONDecodeError)"

definition json_dumps :: "json \<Rightarrow> blob" where
  "json_dumps j = Blob_json j"

text \<open>\<^verbatim>\<open>datamodel.TradingState\<close>, the fields the engines read.\<close>

record trading_state =
  traderData :: blob
  timestamp :: int
  order_depths :: "(string, order_depth) dict"
  position :: "string \<rightharpoonup> int"

text \<open>\<^verbatim>\<open>state.position.get(product, 0)\<close>\<close>

definition position_get :: "trading_state \<Rightarrow> string \<Rightarrow> int" where
  "position_get st product = (case position st product of None \<Rightarrow> 0 | Some p \<Rightarrow> p)"

text \<open>\<^verbatim>\<open>max(d.keys())\<close> and \<^verbatim>\<open>min(d.keys())\<close> of a non-empty dictionary.\<close>

definition max_key :: "(int, 'v) dict \<Rightarrow> int" where
  "max_key d = Max (set (map fst d))"

definition min_key :: "(int, 'v) dict \<Rightarrow> int" where
  "min_key d = Min (set (map fst d))"

section \<open>Order generation\<close>

subsection \<open>Walking the book\<close>

text \<open>
  The same two loops stand in all three files (ROUND-1 lines 58-72, ROUND-2 lines 161-175,
  ROUND-3 lines 146-160):
  \<^verbatim>\<open>
  for ask_price in sorted(order_depth.sell_orders.keys()):
      ask_volume = order_depth.sell_orders[ask_price]
      if ask_price < fair_price and current_position < position_limit:
          volume = min(-ask_volume, position_limit - current_position)
          orders.append(Order(product, ask_price, volume))
          current_position += volume
  for bid_price in sorted(order_depth.buy_orders.keys(), reverse=True):
      bid_volume = order_depth.buy_orders[bid_price]
      if bid_price > fair_price and current_position > -position_limit:
          volume = min(bid_volume, current_position + position_limit)
          orders.append(Order(product, bid_price, -volume))
          current_position -= volume
  \<close>
  The loop state is the pair of \<^verbatim>\<open>current_position\<close> and \<^verbatim>\<open>orders\<close>.
\<close>

fun buy_level :: "string \<Rightarrow> real \<Rightarrow> int \<Rightarrow> int \<times> int \<Rightarrow> int \<times> order list \<Rightarrow> int \<times> order list" where
  "buy_level product fair_price position_limit (ask_price, ask_volume) (current_position, orders) =
     (if real_of_int ask_price < fair_price \<and> current_position < position_limit then
        let volume = min (- ask_volume) (position_limit - current_position)
        in (current_position + volume,
            orders @ [\<lparr>symbol = product, price = ask_price, quantity = volume\<rparr>])
      else (current_position, orders))"

fun sell_level :: "string \<Rightarrow> real \<Rightarrow> int \<Rightarrow> int \<times> int \<Rightarrow> int \<times> order list \<Rightarrow> int \<times> order list" where
  "sell_level product fair_price position_limit (bid_price, bid_volume) (current_position, orders) =
     (if real_of_int bid_price > fair_price \<and> current_position > - position_limit then
        let volume = min bid_volume (current_position + position_limit)
        in (current_position - volume,
            orders @ [\<lparr>symbol = product, price = bid_price, quantity = - volume\<rparr>])
      else (current_position, orders))"

definition ascending :: "(int, int) dict \<Rightarrow> (int \<times> int) list" where
  "ascending d = sort_key fst (dict_items d)"

definition descending :: "(int, int) dict \<Rightarrow> (int \<times> int) list" where
  "descending d = rev (sort_key fst (dict_items d))"

definition book_walk :: "string \<Rightarrow> real \<Rightarrow> int \<Rightarrow> order_depth \<Rightarrow> int \<Rightarrow> order list" where
  "book_walk product fair_price position_limit order_depth current_position =
     snd (fold (sell_level product fair_price position_limit) (descending (buy_orders order_depth))
       (fold (buy_level product fair_price position_limit) (ascending (sell_orders order_depth))
          (current_position, [])))"

text \<open>
  The book walk in the words of the specification, for comparison with \<open>book_walk\<close>:
  over the ask levels in ascending price order, a level priced strictly below the fair price
  \<open>F\<close>, met while the running position \<open>p\<close> is below the limit \<open>L\<close>, gives one buy
  order at the level's price for \<open>min(|v|, L - p)\<close>; then, over the bid levels in descending
  price order, a level priced strictly above \<open>F\<close>, met while \<open>p\<close> is above \<open>-L\<close>, gives
  one sell order at the level's price for \<open>min(v, p + L)\<close>.
\<close>

fun spec_buy :: "string \<Rightarrow> real \<Rightarrow> int \<Rightarrow> (int \<times> int) list \<Rightarrow> int \<Rightarrow> order list \<times> int" where
  "spec_buy product F L [] p = ([], p)"
| "spec_buy product F L ((a, v) # levels) p =
     (if real_of_int a < F \<and> p < L then
        (let q = min \<bar>v\<bar> (L - p); r = spec_buy product F L levels (p + q)
         in (\<lparr>symbol = product, price = a, quantity = q\<rparr> # fst r, snd r))
      else spec_buy product F L levels p)"

fun spec_sell :: "string \<Rightarrow> real \<Rightarrow> int \<Rightarrow> (int \<times> int) list \<Rightarrow> int \<Rightarrow> order list \<times> int" where
  "spec_sell product F L [] p = ([], p)"
| "spec_sell product F L ((b, v) # levels) p =
     (if real_of_int b > F \<and> p > - L then
        (let q = min v (p + L); r = spec_sell product F L levels (p - q)
         in (\<lparr>symbol = product, price = b, quantity = - q\<rparr> # fst r, snd r))
      else spec_sell product F L levels p)"

definition spec_book_walk :: "string \<Rightarrow> real \<Rightarrow> int \<Rightarrow> order_depth \<Rightarrow> int \<Rightarrow> order list" where
  "spec_book_walk product F L depth p =
     (let buys = spec_buy product F L (ascending (sell_orders depth)) p;
          sells = spec_sell product F L (descending (buy_orders depth)) (snd buys)
      in fst buys @ fst sells)"

section \<open>Python library functions the engines call\<close>

text \<open>\<^verbatim>\<open>s.startswith(p)\<close>\<close>

definition startswith :: "string \<Rightarrow> string \<Rightarrow> bool" where
  "startswith s p = (take (length p) s = p)"

text \<open>\<^verbatim>\<open>s.split(c)\<close> for a separator of one character; the result is never empty.\<close>

fun str_split :: "char \<Rightarrow> string \<Rightarrow> string list" where
  "str_split c [] = [[]]"
| "str_split c (x # xs) =
     (if x = c then [] # str_split c xs
      else (case str_split c xs of [] \<Rightarrow> [[x]] | w # ws \<Rightarrow> (x # w) # ws))"

text \<open>
  \<^verbatim>\<open>int(s)\<close> for a string: white space around the number is dropped (the tab, line feed,
  vertical tab, form feed, carriage return and space, codes 9 to 13 and 32; the
  separators 28 to 31 are not dropped and make \<^verbatim>\<open>int\<close> raise), one sign is allowed, and the
  rest must be decimal digits, at least one and, as Python 3.11 and later demand, at most
  4300; anything else raises \<^verbatim>\<open>ValueError\<close>. Characters are bytes here, so the digits and
  spaces outside ASCII that Python also accepts are not covered. (Python also accepts
  single underscores between digits; the engine only converts a piece of a string split
  at underscores.)
\<close>

definition is_space :: "char \<Rightarrow> bool" where
  "is_space c = (let n = (of_char c :: nat) in (9 \<le> n \<and> n \<le> 13) \<or> n = 32)"

definition str_strip :: "string \<Rightarrow> string" where
  "str_strip s = rev (dropWhile is_space (rev (dropWhile is_space s)))"

definition digit_val :: "char \<Rightarrow> nat option" where
  "digit_val c = (let n = (of_char c :: nat) in if 48 \<le> n \<and> n \<le> 57 then Some (n - 48) else None)"

fun digits_val :: "string \<Rightarrow> nat \<Rightarrow> nat option" where
  "digits_val [] acc = Some acc"
| "digits_val (c # cs) acc =
     (case digit_val c of None \<Rightarrow> None | Some d \<Rightarrow> digits_val cs (10 * acc + d))"

definition unsigned_int :: "string \<Rightarrow> error + int" where
  "unsigned_int s =
     (if s = [] \<or> length s > 4300 then Inl ValueError
      else case digits_val s 0 of None \<Rightarrow> Inl ValueError | Some n \<Rightarrow> Inr (int n))"

definition py_int :: "string \<Rightarrow> error + int" where
  "py_int s =
     (case str_strip s of
        [] \<Rightarrow> Inl ValueError
      | c # cs \<Rightarrow>
          if c = CHR ''-'' then
            (case unsigned_int cs of Inl e \<Rightarrow> Inl e | Inr n \<Rightarrow> Inr (- n))
          else if c = CHR ''+'' then unsigned_int cs
          else unsigned_int (c # cs))"

text \<open>\<^verbatim>\<open>int(x)\<close> for a float: truncation towards zero.\<close>

definition int_of_float :: "real \<Rightarrow> int" where
  "int_of_float x = (if 0 \<le> x then \<lfloor>x\<rfloor> else \<lceil>x\<rceil>)"

text \<open>
  The numbers \<^verbatim>\<open>sum\<close> can add and \<^verbatim>\<open>statistics.median\<close> can sort and average: \<^verbatim>\<open>int\<close>,
  \<^verbatim>\<open>float\<close> and \<^verbatim>\<open>bool\<close> (\<^verbatim>\<open>True\<close> is 1). Any other element makes them raise \<^verbatim>\<open>TypeError\<close>.
\<close>

fun py_number :: "json \<Rightarrow> real option" where
  "py_number (JNum r) = Some r"
| "py_number (JBool b) = Some (if b then 1 else 0)"
| "py_number _ = None"

fun py_numbers :: "json list \<Rightarrow> real list option" where
  "py_numbers [] = Some []"
| "py_numbers (x # xs) =
     (case py_number x of
        None \<Rightarrow> None
      | Some r \<Rightarrow> (case py_numbers xs of None \<Rightarrow> None | Some rs \<Rightarrow> Some (r # rs)))"

text \<open>\<^verbatim>\<open>sum(history) / len(history)\<close> for a list \<^verbatim>\<open>history\<close>.\<close>

definition average :: "json list \<Rightarrow> error + real" where
  "average history =
     (case py_numbers history of
        None \<Rightarrow> Inl TypeError
      | Some ns \<Rightarrow> if ns = [] then Inl ZeroDivisionError
                  else Inr (sum_list ns / real (length ns)))"

text \<open>
  \<^verbatim>\<open>statistics.mean\<close> and \<^verbatim>\<open>statistics.stdev\<close> (the sample standard deviation, with
  \<open>n - 1\<close> in the denominator), on the lists the engines apply them to: at least two
  numbers.
\<close>

definition statistics_mean :: "real list \<Rightarrow> real" where
  "statistics_mean xs = sum_list xs / real (length xs)"

definition statistics_stdev :: "real list \<Rightarrow> real" where
  "statistics_stdev xs =
     sqrt (sum_list (map (\<lambda>x. (x - statistics_mean xs)\<^sup>2) xs) / real (length xs - 1))"

text \<open>
  \<^verbatim>\<open>statistics.median\<close> of a non-empty list of numbers: the middle element of the sorted
  list, or the mean of the two middle elements.
\<close>

definition statistics_median :: "real list \<Rightarrow> real" where
  "statistics_median xs =
     (let data = sort xs; n = length data in
      if odd n then data ! (n div 2)
      else (data ! (n div 2 - 1) + data ! (n div 2)) / 2)"

text \<open>
  \<^verbatim>\<open>d.update(other)\<close>. A \<^verbatim>\<open>dict\<close> argument is merged key by key. Any other argument is
  iterated, and every element must unpack to a key and a value (a list of two elements,
  a string of two characters, a dictionary of two keys); the entries before a failing
  element stay in \<open>d\<close>. The result is the exception, if one was raised, and the dictionary.
  A key must be hashable (no list, no dictionary); \<^verbatim>\<open>True\<close> and \<^verbatim>\<open>False\<close> are the keys 1
  and 0.
\<close>

fun hashable :: "json \<Rightarrow> json option" where
  "hashable (JArr xs) = None"
| "hashable (JObj kvs) = None"
| "hashable (JBool b) = Some (JNum (if b then 1 else 0))"
| "hashable k = Some k"

fun key_value :: "json \<Rightarrow> error + json \<times> json" where
  "key_value (JArr [k, v]) = Inr (k, v)"
| "key_value (JArr xs) = Inl ValueError"
| "key_value (JStr [a, b]) = Inr (JStr [a], JStr [b])"
| "key_value (JStr s) = Inl ValueError"
| "key_value (JObj kvs) = (case dict_keys kvs of [k, v] \<Rightarrow> Inr (k, v) | _ \<Rightarrow> Inl ValueError)"
| "key_value x = Inl TypeError"

fun update_seq :: "(json, json) dict \<Rightarrow> json list \<Rightarrow> error option \<times> (json, json) dict" where
  "update_seq d [] = (None, d)"
| "update_seq d (x # xs) =
     (case key_value x of
        Inl e \<Rightarrow> (Some e, d)
      | Inr (k, v) \<Rightarrow>
          (case hashable k of
             None \<Rightarrow> (Some TypeError, d)
           | Some k' \<Rightarrow> update_seq (dict_set d k' v) xs))"

definition dict_update :: "(json, json) dict \<Rightarrow> json \<Rightarrow> error option \<times> (json, json) dict" where
  "dict_update d other =
     (case other of
        JObj kvs \<Rightarrow> (None, fold (\<lambda>(k, v) d'. dict_set d' k v) (dict_items kvs) d)
      | JArr xs \<Rightarrow> update_seq d xs
      | JStr s \<Rightarrow> update_seq d (map (\<lambda>c. JStr [c]) s)
      | _ \<Rightarrow> (Some TypeError, d))"

section \<open>Strategies shared by the engines\<close>

subsection \<open>The moving-average fair price\<close>

text \<open>
  The price history of a product, in all three files (ROUND-3 lines 138-144):
  \<^verbatim>\<open>
  if product not in price_history:
      price_history[product] = []
  price_history[product].append(mid_price)
  if len(price_history[product]) > 5:
      price_history[product] = price_history[product][-5:]
  \<close>
  The entry can come from a blob, so it is any JSON value; only a list has \<^verbatim>\<open>append\<close>.
\<close>

definition push_price :: "(json, json) dict \<Rightarrow> string \<Rightarrow> real \<Rightarrow> error + (json, json) dict" where
  "push_price price_history product mid_price =
     (let ph = (if map_of price_history (JStr product) = None
                then dict_set price_history (JStr product) (JArr [])
                else price_history)
      in case map_of ph (JStr product) of
           Some (JArr h) \<Rightarrow>
             (let h1 = h @ [JNum mid_price];
                  h2 = (if length h1 > 5 then drop (length h1 - 5) h1 else h1)
              in Inr (dict_set ph (JStr product) (JArr h2)))
         | _ \<Rightarrow> Inl AttributeError)"

text \<open>
  The strategy of RAINFOREST_RESIN and KELP in ROUND-2 (lines 149-175) and ROUND-3 (lines
  137-160): push the mid price, take the average of the history as the fair price, walk
  the book. The result is the orders and the new price history.
\<close>

definition mean_reversion ::
  "(json, json) dict \<Rightarrow> string \<Rightarrow> real \<Rightarrow> int \<Rightarrow> order_depth \<Rightarrow> int
     \<Rightarrow> error + order list \<times> (json, json) dict" where
  "mean_reversion price_history product mid_price position_limit order_depth current_position =
     (case push_price price_history product mid_price of
        Inl e \<Rightarrow> Inl e
      | Inr ph \<Rightarrow>
          (case map_of ph (JStr product) of
             Some (JArr history) \<Rightarrow>
               (case average history of
                  Inl e \<Rightarrow> Inl e
                | Inr fair_price \<Rightarrow>
                    Inr (book_walk product fair_price position_limit order_depth current_position, ph))
           | _ \<Rightarrow> Inl TypeError))"

subsection \<open>The z-score strategy of CROISSANTS\<close>

text \<open>
  \<^verbatim>\<open>update_croissant_history\<close> and \<^verbatim>\<open>calculate_z_score\<close> of ROUND-2 (lines 55-67), the same
  code as \<^verbatim>\<open>pb_update_croissant_history\<close> and \<^verbatim>\<open>pb_calculate_z_score\<close> of ROUND-3 (lines
  185-197); the window is 100 in both.
\<close>

definition croissant_window :: nat where
  "croissant_window = 100"

definition std_threshold :: real where
  "std_threshold = 1.5"

definition max_trade_size :: int where
  "max_trade_size = 10"

definition update_croissant_history :: "real list \<Rightarrow> real \<Rightarrow> real list" where
  "update_croissant_history croissant_history current_price =
     (let h = croissant_history @ [current_price]
      in if length h > croissant_window then tl h else h)"

definition calculate_z_score :: "real list \<Rightarrow> real \<Rightarrow> real" where
  "calculate_z_score croissant_history current_price =
     (if length croissant_history < croissant_window then 0
      else
        let mean = statistics_mean croissant_history;
            std_dev = (if length croissant_history > 1 then statistics_stdev croissant_history else 0)
        in if std_dev \<noteq> 0 then (current_price - mean) / std_dev else 0)"

text \<open>
  The orders of the z-score strategy (ROUND-2 lines 183-197, ROUND-3 lines 167-181): one
  order at the best bid or the best ask when the z-score is beyond the threshold.
\<close>

definition threshold_orders :: "string \<Rightarrow> real \<Rightarrow> int \<Rightarrow> int \<Rightarrow> int \<Rightarrow> int \<Rightarrow> order list" where
  "threshold_orders product z_score position_limit current_position best_bid best_ask =
     (if z_score > std_threshold then
        (let sell_volume = min max_trade_size (position_limit + current_position)
         in if sell_volume > 0
            then [\<lparr>symbol = product, price = best_bid, quantity = - sell_volume\<rparr>] else [])
      else if z_score < - std_threshold then
        (let buy_volume = min max_trade_size (position_limit - current_position)
         in if buy_volume > 0
            then [\<lparr>symbol = product, price = best_ask, quantity = buy_volume\<rparr>] else [])
      else [])"

section \<open>ROUND-3: \<^verbatim>\<open>short_itm.py\<close>\<close>

text \<open>
  The attributes of \<^verbatim>\<open>Trader\<close> that \<^verbatim>\<open>run\<close> reads or writes. \<^verbatim>\<open>self.trader_data\<close> is the
  dictionary with the keys \<^verbatim>\<open>last_timestamp\<close>, \<^verbatim>\<open>price_history\<close> and \<^verbatim>\<open>spread_history\<close>; no
  key is ever added to it or removed from it, and the two histories stay dictionaries
  (they are only changed by \<^verbatim>\<open>update\<close> and by assigning one of their entries), so it is
  a record. The other attributes (\<^verbatim>\<open>vr_max_short\<close>, \<^verbatim>\<open>pb_position_limits\<close>,
  \<^verbatim>\<open>pb_components\<close>, \<^verbatim>\<open>pb_dynamic_params\<close>, the window and the thresholds) are never
  assigned after \<^verbatim>\<open>__init__\<close>; they are constants.
\<close>

record trader_data =
  last_timestamp :: json
  price_history :: "(json, json) dict"
  spread_history :: "(json, json) dict"

record r3_trader =
  vr_price :: real
  vr_last_prices :: "real list"
  pb_croissant_history :: "real list"
  trader_data :: trader_data

definition vr_max_short :: int where
  "vr_max_short = 200"

definition pb_position_limits :: "string \<rightharpoonup> int" where
  "pb_position_limits = map_of
     [(''RAINFOREST_RESIN'', 50), (''KELP'', 50), (''CROISSANTS'', 250),
      (''PICNIC_BASKET1'', 60), (''PICNIC_BASKET2'', 100)]"

text \<open>\<^verbatim>\<open>Trader.__init__\<close> (lines 7-55).\<close>

definition r3_init :: r3_trader where
  "r3_init =
     \<lparr>vr_price = 10500, vr_last_prices = [], pb_croissant_history = [],
      trader_data =
        \<lparr>last_timestamp = JNum 0, price_history = [],
         spread_history = [(JStr ''PICNIC_BASKET1'', JArr []), (JStr ''PICNIC_BASKET2'', JArr [])]\<rparr>\<rparr>"

text \<open>
  The restoration of the state (lines 61-71, and lines 118-128 of ROUND-2):
  \<^verbatim>\<open>
  if state.traderData:
      try:
          loaded_data = json.loads(state.traderData)
          for key in loaded_data:
              if key in self.trader_data:
                  if isinstance(self.trader_data[key], dict):
                      self.trader_data[key].update(loaded_data[key])
                  else:
                      self.trader_data[key] = loaded_data[key]
      except:
          pass
  \<close>
  \<open>restore_key\<close> is one round of the loop over a decoded object, \<open>restore_loop\<close> the loop,
  \<open>restore_body\<close> the body of \<^verbatim>\<open>try\<close> after a successful \<^verbatim>\<open>json.loads\<close>; each gives the
  exception, if one was raised, and \<^verbatim>\<open>self.trader_data\<close> as it then is. A decoded value
  that is no object changes nothing: a number, \<^verbatim>\<open>None\<close> or a Boolean cannot be iterated;
  the characters of a string are no keys of \<^verbatim>\<open>self.trader_data\<close>; an element of a list
  either is no key, or cannot be hashed, or is a key, and then the list cannot be indexed
  by it.
\<close>

definition restore_key ::
  "'a trader_data_scheme \<Rightarrow> json \<times> json \<Rightarrow> error option \<times> 'a trader_data_scheme" where
  "restore_key td kv =
     (case kv of (key, loaded) \<Rightarrow>
        if key = JStr ''last_timestamp'' then
          (case last_timestamp td of
             JObj d \<Rightarrow> (case dict_update d loaded of (e, d') \<Rightarrow> (e, td\<lparr>last_timestamp := JObj d'\<rparr>))
           | _ \<Rightarrow> (None, td\<lparr>last_timestamp := loaded\<rparr>))
        else if key = JStr ''price_history'' then
          (case dict_update (price_history td) loaded of (e, d') \<Rightarrow> (e, td\<lparr>price_history := d'\<rparr>))
        else if key = JStr ''spread_history'' then
          (case dict_update (spread_history td) loaded of (e, d') \<Rightarrow> (e, td\<lparr>spread_history := d'\<rparr>))
        else (None, td))"

definition trader_data_keys :: "json list" where
  "trader_data_keys = [JStr ''last_timestamp'', JStr ''price_history'', JStr ''spread_history'']"

text \<open>
  The loop, the body of \<^verbatim>\<open>try\<close> and the whole restoration take the round \<open>step\<close> of the
  loop and the keys of \<^verbatim>\<open>self.trader_data\<close> as arguments: ROUND-2 runs the same code on a
  dictionary with one more key.
\<close>

fun restore_loop ::
  "('td \<Rightarrow> json \<times> json \<Rightarrow> error option \<times> 'td) \<Rightarrow> 'td \<Rightarrow> (json \<times> json) list
     \<Rightarrow> error option \<times> 'td" where
  "restore_loop step td [] = (None, td)"
| "restore_loop step td (kv # kvs) =
     (case step td kv of
        (Some e, td') \<Rightarrow> (Some e, td')
      | (None, td') \<Rightarrow> restore_loop step td' kvs)"

definition restore_body ::
  "('td \<Rightarrow> json \<times> json \<Rightarrow> error option \<times> 'td) \<Rightarrow> json list \<Rightarrow> 'td \<Rightarrow> json
     \<Rightarrow> error option \<times> 'td" where
  "restore_body step keys td loaded_data =
     (case loaded_data of
        JObj kvs \<Rightarrow> restore_loop step td (dict_items kvs)
      | JArr xs \<Rightarrow>
          (if \<exists>x \<in> set xs. hashable x = None \<or> x \<in> set keys
           then (Some TypeError, td) else (None, td))
      | JStr s \<Rightarrow> (None, td)
      | _ \<Rightarrow> (Some TypeError, td))"

definition restore ::
  "('td \<Rightarrow> json \<times> json \<Rightarrow> error option \<times> 'td) \<Rightarrow> json list \<Rightarrow> 'td \<Rightarrow> blob \<Rightarrow> 'td" where
  "restore step keys td b =
     (if b = Blob_empty then td
      else case json_loads b of
             Inl e \<Rightarrow> td
           | Inr loaded_data \<Rightarrow> snd (restore_body step keys td loaded_data))"

text \<open>\<^verbatim>\<open>vr_update_market_data\<close> (lines 93-102).\<close>

definition vr_update_market_data :: "r3_trader \<Rightarrow> trading_state \<Rightarrow> r3_trader" where
  "vr_update_market_data self state =
     (case map_of (order_depths state) ''VOLCANIC_ROCK'' of
        None \<Rightarrow> self
      | Some depth \<Rightarrow>
          if buy_orders depth \<noteq> [] \<and> sell_orders depth \<noteq> [] then
            (let p = real_of_int (max_key (buy_orders depth) + min_key (sell_orders depth)) / 2;
                 l = vr_last_prices self @ [p]
             in self\<lparr>vr_price := p, vr_last_prices := (if length l > 20 then tl l else l)\<rparr>)
          else self)"

text \<open>\<^verbatim>\<open>vr_short_itm_voucher\<close> (lines 104-119).\<close>

definition vr_short_itm_voucher :: "r3_trader \<Rightarrow> string \<Rightarrow> trading_state \<Rightarrow> error + order list" where
  "vr_short_itm_voucher self product state =
     (case py_int (last (str_split CHR ''_'' product)) of
        Inl e \<Rightarrow> Inl e
      | Inr strike \<Rightarrow>
          if vr_price self \<le> real_of_int strike then Inr []
          else
            let current_pos = position_get state product;
                short_capacity = vr_max_short + current_pos
            in if short_capacity \<le> 0 then Inr []
               else
                 let quantity = min 10 short_capacity;
                     intrinsic = vr_price self - real_of_int strike;
                     price = int_of_float (intrinsic * 0.95)
                 in Inr [\<lparr>symbol = product, price = price, quantity = - quantity\<rparr>])"

text \<open>
  \<^verbatim>\<open>pb_process_product\<close> (lines 122-183): the orders, and the trader with its histories
  updated.
\<close>

definition pb_process_product ::
  "r3_trader \<Rightarrow> string \<Rightarrow> trading_state \<Rightarrow> error + order list \<times> r3_trader" where
  "pb_process_product self product state =
     (case map_of (order_depths state) product of
        None \<Rightarrow> Inl KeyError
      | Some order_depth \<Rightarrow>
     (case pb_position_limits product of
        None \<Rightarrow> Inl KeyError
      | Some position_limit \<Rightarrow>
     (let current_position = position_get state product in
      if buy_orders order_depth = [] \<or> sell_orders order_depth = [] then Inr ([], self)
      else
        let best_bid = max_key (buy_orders order_depth);
            best_ask = min_key (sell_orders order_depth);
            mid_price = real_of_int (best_bid + best_ask) / 2
        in
          if product \<in> set [''RAINFOREST_RESIN'', ''KELP''] then
            (case mean_reversion (price_history (trader_data self)) product mid_price
                    position_limit order_depth current_position of
               Inl e \<Rightarrow> Inl e
             | Inr (orders, ph) \<Rightarrow>
                 Inr (orders, self\<lparr>trader_data := (trader_data self)\<lparr>price_history := ph\<rparr>\<rparr>))
          else if product = ''CROISSANTS'' then
            (let h = update_croissant_history (pb_croissant_history self) mid_price;
                 z_score = calculate_z_score h mid_price
             in Inr (threshold_orders product z_score position_limit current_position
                       best_bid best_ask,
                     self\<lparr>pb_croissant_history := h\<rparr>))
          else Inr ([], self))))"

text \<open>
  \<^verbatim>\<open>run\<close> (lines 57-91). The two loops over \<^verbatim>\<open>state.order_depths\<close> are \<open>vr_loop\<close> and
  \<open>pb_loop\<close>; \<^verbatim>\<open>result\<close> is a map from products to order lists. \<open>r3_run\<close> gives the triple
  that \<^verbatim>\<open>run\<close> returns and the trader as the call leaves it.
\<close>

fun vr_loop ::
  "r3_trader \<Rightarrow> trading_state \<Rightarrow> string list \<Rightarrow> (string \<rightharpoonup> order list)
     \<Rightarrow> error + (string \<rightharpoonup> order list)" where
  "vr_loop self state [] result = Inr result"
| "vr_loop self state (product # products) result =
     (if startswith product ''VOLCANIC_ROCK_VOUCHER'' then
        (case vr_short_itm_voucher self product state of
           Inl e \<Rightarrow> Inl e
         | Inr orders \<Rightarrow>
             vr_loop self state products (if orders \<noteq> [] then result(product \<mapsto> orders) else result))
      else vr_loop self state products result)"

fun pb_loop ::
  "trading_state \<Rightarrow> string list \<Rightarrow> r3_trader \<times> (string \<rightharpoonup> order list)
     \<Rightarrow> error + r3_trader \<times> (string \<rightharpoonup> order list)" where
  "pb_loop state [] (self, result) = Inr (self, result)"
| "pb_loop state (product # products) (self, result) =
     (if pb_position_limits product \<noteq> None then
        (case pb_process_product self product state of
           Inl e \<Rightarrow> Inl e
         | Inr (orders, self') \<Rightarrow>
             pb_loop state products
               (self', if orders \<noteq> [] then result(product \<mapsto> orders) else result))
      else pb_loop state products (self, result))"

definition trader_data_json :: "trader_data \<Rightarrow> json" where
  "trader_data_json td =
     JObj [(JStr ''last_timestamp'', last_timestamp td),
           (JStr ''price_history'', JObj (price_history td)),
           (JStr ''spread_history'', JObj (spread_history td))]"

definition r3_run ::
  "r3_trader \<Rightarrow> trading_state \<Rightarrow> error + ((string \<rightharpoonup> order list) \<times> int \<times> blob) \<times> r3_trader" where
  "r3_run self0 state =
     (let conversions = 0;
          self1 = self0\<lparr>trader_data :=
                    restore restore_key trader_data_keys (trader_data self0) (traderData state)\<rparr>;
          self2 = vr_update_market_data self1 state
      in case vr_loop self2 state (dict_keys (order_depths state)) Map.empty of
           Inl e \<Rightarrow> Inl e
         | Inr result1 \<Rightarrow>
             (case pb_loop state (dict_keys (order_depths state)) (self2, result1) of
                Inl e \<Rightarrow> Inl e
              | Inr (self3, result) \<Rightarrow>
                  (let td = (trader_data self3)\<lparr>last_timestamp := JNum (real_of_int (timestamp state))\<rparr>
                   in Inr ((result, conversions, json_dumps (trader_data_json td)),
                           self3\<lparr>trader_data := td\<rparr>))))"

section \<open>ROUND-2: \<^verbatim>\<open>premium_narrowdown.py\<close>\<close>

text \<open>
  Line 150 of the file is the comment \<^verbatim>\<open>Update price history\<close> without its \<^verbatim>\<open>#\<close>, so
  Python refuses the file as it stands; it is read here as the comment it was meant to be.

  \<^verbatim>\<open>self.trader_data\<close> has the three keys of ROUND-3 and \<^verbatim>\<open>open_positions\<close>.
  \<^verbatim>\<open>self.dynamic_params\<close> maps each basket to its four buffer parameters.
\<close>

record trader_data2 = trader_data +
  open_positions :: "(json, json) dict"

record params =
  buffer_multiplier :: real
  min_buffer :: real
  max_buffer :: real
  current_buffer :: real

record r2_trader =
  croissant_history :: "real list"
  trader_data_r2 :: trader_data2
  dynamic_params :: "string \<rightharpoonup> params"

definition POSITION_LIMITS :: "string \<rightharpoonup> int" where
  "POSITION_LIMITS = map_of
     [(''RAINFOREST_RESIN'', 50), (''KELP'', 50), (''CROISSANTS'', 250),
      (''PICNIC_BASKET1'', 60), (''PICNIC_BASKET2'', 100)]"

definition COMPONENTS :: "(string, (string, int) dict) dict" where
  "COMPONENTS =
     [(''PICNIC_BASKET1'', [(''CROISSANTS'', 6), (''JAMS'', 3), (''DJEMBES'', 1)]),
      (''PICNIC_BASKET2'', [(''CROISSANTS'', 4), (''JAMS'', 2)])]"

text \<open>\<^verbatim>\<open>Trader.__init__\<close> (lines 20-53).\<close>

definition r2_init :: r2_trader where
  "r2_init =
     \<lparr>croissant_history = [],
      trader_data_r2 =
        \<lparr>last_timestamp = JNum 0, price_history = [],
         spread_history = [(JStr ''PICNIC_BASKET1'', JArr []), (JStr ''PICNIC_BASKET2'', JArr [])],
         open_positions = []\<rparr>,
      dynamic_params =
        [''PICNIC_BASKET1'' \<mapsto>
           \<lparr>buffer_multiplier = 2.2, min_buffer = 2.0, max_buffer = 10.0, current_buffer = 3.0\<rparr>,
         ''PICNIC_BASKET2'' \<mapsto>
           \<lparr>buffer_multiplier = 2.0, min_buffer = 1.5, max_buffer = 8.0, current_buffer = 2.0\<rparr>]\<rparr>"

text \<open>
  \<^verbatim>\<open>update_dynamic_buffers\<close> (lines 84-98):
  \<^verbatim>\<open>
  history = self.trader_data["spread_history"][product]
  history.append(current_spread)
  if len(history) > 20:
      history.pop(0)
  if len(history) >= 5:
      median_spread = statistics.median(history)
      params = self.dynamic_params[product]
      self.dynamic_params[product]["current_buffer"] = max(
          params["min_buffer"],
          min(params["max_buffer"], median_spread * params["buffer_multiplier"]))
  \<close>
  No statement of the file calls it. A history that holds something else than numbers
  makes \<^verbatim>\<open>statistics.median\<close>, or the product with the multiplier, raise \<^verbatim>\<open>TypeError\<close>
  (when such a history can be sorted and the product has no parameters, Python meets the
  \<^verbatim>\<open>KeyError\<close> first).
\<close>

definition update_dynamic_buffers :: "r2_trader \<Rightarrow> string \<Rightarrow> real \<Rightarrow> error + r2_trader" where
  "update_dynamic_buffers self product current_spread =
     (case map_of (spread_history (trader_data_r2 self)) (JStr product) of
        None \<Rightarrow> Inl KeyError
      | Some (JArr h) \<Rightarrow>
          (let h1 = h @ [JNum current_spread];
               history = (if length h1 > 20 then tl h1 else h1);
               self1 = self\<lparr>trader_data_r2 := (trader_data_r2 self)
                         \<lparr>spread_history :=
                            dict_set (spread_history (trader_data_r2 self)) (JStr product) (JArr history)\<rparr>\<rparr>
           in if length history \<ge> 5 then
                (case py_numbers history of
                   None \<Rightarrow> Inl TypeError
                 | Some ns \<Rightarrow>
                     (let median_spread = statistics_median ns in
                      case dynamic_params self1 product of
                        None \<Rightarrow> Inl KeyError
                      | Some params \<Rightarrow>
                          Inr (self1\<lparr>dynamic_params := (dynamic_params self1)(product \<mapsto>
                                 params\<lparr>current_buffer :=
                                   max (min_buffer params)
                                     (min (max_buffer params)
                                        (median_spread * buffer_multiplier params))\<rparr>)\<rparr>)))
              else Inr self1)
      | Some _ \<Rightarrow> Inl AttributeError)"

text \<open>
  \<^verbatim>\<open>calculate_fair_value\<close> (lines 100-110):
  \<^verbatim>\<open>
  total = 0
  for comp, qty in components.items():
      depth = state.order_depths.get(comp, None)
      if not depth or not depth.buy_orders or not depth.sell_orders:
          return None
      bid_vwap = sum(p*v for p,v in depth.buy_orders.items())/sum(depth.buy_orders.values())
      ask_vwap = sum(p*abs(v) for p,v in depth.sell_orders.items())/sum(abs(v) for v in depth.sell_orders.values())
      total += qty * (bid_vwap + ask_vwap)/2
  return total
  \<close>
  \<open>total0\<close> is \<^verbatim>\<open>total\<close> and \<open>component\<close> is \<^verbatim>\<open>comp\<close>. An \<^verbatim>\<open>OrderDepth\<close> object is always true. The two quotients divide integers and raise
  \<^verbatim>\<open>ZeroDivisionError\<close> when the volumes of a side add up to zero.
\<close>

definition true_div :: "int \<Rightarrow> int \<Rightarrow> error + real" where
  "true_div a b = (if b = 0 then Inl ZeroDivisionError else Inr (real_of_int a / real_of_int b))"

definition bid_vwap :: "(int, int) dict \<Rightarrow> error + real" where
  "bid_vwap d = true_div (sum_list (map (\<lambda>(p, v). p * v) (dict_items d)))
                         (sum_list (map snd (dict_items d)))"

definition ask_vwap :: "(int, int) dict \<Rightarrow> error + real" where
  "ask_vwap d = true_div (sum_list (map (\<lambda>(p, v). p * \<bar>v\<bar>) (dict_items d)))
                         (sum_list (map (\<lambda>(p, v). \<bar>v\<bar>) (dict_items d)))"

fun fair_value_loop :: "(string \<times> int) list \<Rightarrow> trading_state \<Rightarrow> real \<Rightarrow> error + real option" where
  "fair_value_loop [] state total0 = Inr (Some total0)"
| "fair_value_loop ((component, qty) # components) state total0 =
     (case map_of (order_depths state) component of
        None \<Rightarrow> Inr None
      | Some depth \<Rightarrow>
          if buy_orders depth = [] \<or> sell_orders depth = [] then Inr None
          else
            (case bid_vwap (buy_orders depth) of
               Inl e \<Rightarrow> Inl e
             | Inr b \<Rightarrow>
                 (case ask_vwap (sell_orders depth) of
                    Inl e \<Rightarrow> Inl e
                  | Inr a \<Rightarrow>
                      fair_value_loop components state (total0 + real_of_int qty * (b + a) / 2))))"

definition calculate_fair_value :: "(string, int) dict \<Rightarrow> trading_state \<Rightarrow> error + real option" where
  "calculate_fair_value components state = fair_value_loop (dict_items components) state 0"

text \<open>The restoration of ROUND-2 (lines 118-128): the code of ROUND-3, with four keys.\<close>

definition restore_key2 :: "trader_data2 \<Rightarrow> json \<times> json \<Rightarrow> error option \<times> trader_data2" where
  "restore_key2 td kv =
     (case kv of (key, loaded) \<Rightarrow>
        if key = JStr ''open_positions'' then
          (case dict_update (open_positions td) loaded of (e, d') \<Rightarrow> (e, td\<lparr>open_positions := d'\<rparr>))
        else restore_key td kv)"

definition trader_data_keys2 :: "json list" where
  "trader_data_keys2 =
     [JStr ''spread_history'', JStr ''last_timestamp'', JStr ''open_positions'', JStr ''price_history'']"

text \<open>
  One round of the loop over \<^verbatim>\<open>state.order_depths\<close> in \<^verbatim>\<open>run\<close> (lines 130-199). The
  baskets have a position limit and no strategy: they get the empty order list.
\<close>

definition r2_product ::
  "trading_state \<Rightarrow> string \<Rightarrow> r2_trader \<times> (string \<rightharpoonup> order list)
     \<Rightarrow> error + r2_trader \<times> (string \<rightharpoonup> order list)" where
  "r2_product state product acc =
     (case acc of (self, result) \<Rightarrow>
      case POSITION_LIMITS product of
        None \<Rightarrow> Inr (self, result)
      | Some position_limit \<Rightarrow>
     (case map_of (order_depths state) product of
        None \<Rightarrow> Inl KeyError
      | Some order_depth \<Rightarrow>
     (let current_position = position_get state product in
      if buy_orders order_depth = [] \<or> sell_orders order_depth = []
      then Inr (self, result(product \<mapsto> []))
      else
        let best_bid = max_key (buy_orders order_depth);
            best_ask = min_key (sell_orders order_depth);
            mid_price = real_of_int (best_bid + best_ask) / 2
        in
          if product \<in> set [''RAINFOREST_RESIN'', ''KELP''] then
            (case mean_reversion (price_history (trader_data_r2 self)) product mid_price
                    position_limit order_depth current_position of
               Inl e \<Rightarrow> Inl e
             | Inr (orders, ph) \<Rightarrow>
                 Inr (self\<lparr>trader_data_r2 := (trader_data_r2 self)\<lparr>price_history := ph\<rparr>\<rparr>,
                      result(product \<mapsto> orders)))
          else if product = ''CROISSANTS'' then
            (let h = update_croissant_history (croissant_history self) mid_price;
                 z_score = calculate_z_score h mid_price
             in Inr (self\<lparr>croissant_history := h\<rparr>,
                     result(product \<mapsto> threshold_orders product z_score position_limit
                                         current_position best_bid best_ask)))
          else Inr (self, result(product \<mapsto> [])))))"

fun r2_loop ::
  "trading_state \<Rightarrow> string list \<Rightarrow> r2_trader \<times> (string \<rightharpoonup> order list)
     \<Rightarrow> error + r2_trader \<times> (string \<rightharpoonup> order list)" where
  "r2_loop state [] acc = Inr acc"
| "r2_loop state (product # products) acc =
     (case r2_product state product acc of
        Inl e \<Rightarrow> Inl e
      | Inr acc' \<Rightarrow> r2_loop state products acc')"

definition trader_data2_json :: "trader_data2 \<Rightarrow> json" where
  "trader_data2_json td =
     JObj [(JStr ''spread_history'', JObj (spread_history td)),
           (JStr ''last_timestamp'', last_timestamp td),
           (JStr ''open_positions'', JObj (open_positions td)),
           (JStr ''price_history'', JObj (price_history td))]"

definition r2_run ::
  "r2_trader \<Rightarrow> trading_state \<Rightarrow> error + ((string \<rightharpoonup> order list) \<times> int \<times> blob) \<times> r2_trader" where
  "r2_run self0 state =
     (let conversions = 0;
          self1 = self0\<lparr>trader_data_r2 :=
                    restore restore_key2 trader_data_keys2 (trader_data_r2 self0) (traderData state)\<rparr>
      in case r2_loop state (dict_keys (order_depths state)) (self1, Map.empty) of
           Inl e \<Rightarrow> Inl e
         | Inr (self2, result) \<Rightarrow>
             (let td = (trader_data_r2 self2)\<lparr>last_timestamp := JNum (real_of_int (timestamp state))\<rparr>
              in Inr ((result, conversions, json_dumps (trader_data2_json td)),
                      self2\<lparr>trader_data_r2 := td\<rparr>)))"

section \<open>ROUND-1: \<^verbatim>\<open>simple_mean_reversion.py\<close>\<close>

text \<open>
  \<^verbatim>\<open>Trader\<close> has no attributes here: \<^verbatim>\<open>price_history\<close> is a local variable of \<^verbatim>\<open>run\<close>,
  read from the blob with no \<^verbatim>\<open>try\<close> around \<^verbatim>\<open>json.loads\<close> (lines 13-16), so it is whatever
  JSON value the blob holds.
\<close>

definition position_limits :: "string \<rightharpoonup> int" where
  "position_limits = map_of [(''RAINFOREST_RESIN'', 50), (''KELP'', 50), (''SQUID_INK'', 50)]"

definition r1_load :: "blob \<Rightarrow> error + json" where
  "r1_load b = (if b \<noteq> Blob_empty then json_loads b else Inr (JObj []))"

text \<open>
  Lines 40-44, the update of the history. When \<^verbatim>\<open>price_history\<close> (\<open>ph\<close>) is no dictionary, the
  membership test or the statement after it raises \<^verbatim>\<open>TypeError\<close>.
\<close>

definition r1_push :: "json \<Rightarrow> string \<Rightarrow> real \<Rightarrow> error + json" where
  "r1_push ph product mid_price =
     (case ph of
        JObj d \<Rightarrow> (case push_price d product mid_price of Inl e \<Rightarrow> Inl e | Inr d' \<Rightarrow> Inr (JObj d'))
      | _ \<Rightarrow> Inl TypeError)"

text \<open>Line 50: \<^verbatim>\<open>price_history.get(product, [mid_price])\<close>; only a dictionary has \<^verbatim>\<open>get\<close>.\<close>

definition r1_history :: "json \<Rightarrow> string \<Rightarrow> real \<Rightarrow> error + json" where
  "r1_history ph product mid_price =
     (case ph of
        JObj d \<Rightarrow> Inr (case map_of d (JStr product) of None \<Rightarrow> JArr [JNum mid_price] | Some h \<Rightarrow> h)
      | _ \<Rightarrow> Inl AttributeError)"

text \<open>
  Line 51: \<^verbatim>\<open>sum(history) / len(history)\<close>, where \<^verbatim>\<open>history\<close> can be any JSON value: a
  list is averaged, a dictionary is iterated by its keys, the empty string has the sum 0
  and the length 0.
\<close>

definition r1_fair_price :: "json \<Rightarrow> error + real" where
  "r1_fair_price history =
     (case history of
        JArr xs \<Rightarrow> average xs
      | JObj kvs \<Rightarrow> average (dict_keys kvs)
      | JStr s \<Rightarrow> if s = [] then Inl ZeroDivisionError else Inl TypeError
      | _ \<Rightarrow> Inl TypeError)"

text \<open>
  One round of the loop over \<^verbatim>\<open>state.order_depths\<close> (lines 24-74); \<open>ph0\<close> and \<open>ph\<close> are
  \<^verbatim>\<open>price_history\<close> before and after the update of the history. \<open>r1_mid_price\<close> is lines
  31-47: the mid price with the history updated, or the fallback price.
\<close>

definition r1_mid_price :: "order_depth \<Rightarrow> string \<Rightarrow> json \<Rightarrow> error + real \<times> json" where
  "r1_mid_price order_depth product ph0 =
     (let best_ask = (if sell_orders order_depth \<noteq> []
                      then Some (min_key (sell_orders order_depth)) else None);
          best_bid = (if buy_orders order_depth \<noteq> []
                      then Some (max_key (buy_orders order_depth)) else None)
      in case (best_ask, best_bid) of
           (Some a, Some b) \<Rightarrow>
             (let mid_price = real_of_int (a + b) / 2 in
              case r1_push ph0 product mid_price of
                Inl e \<Rightarrow> Inl e
              | Inr ph \<Rightarrow> Inr (mid_price, ph))
         | _ \<Rightarrow> Inr (if product = ''RAINFOREST_RESIN'' then 10000 else 1000, ph0))"

definition r1_product ::
  "trading_state \<Rightarrow> string \<Rightarrow> json \<times> (string \<rightharpoonup> order list)
     \<Rightarrow> error + json \<times> (string \<rightharpoonup> order list)" where
  "r1_product state product acc =
     (case acc of (ph0, result) \<Rightarrow>
      case map_of (order_depths state) product of
        None \<Rightarrow> Inl KeyError
      | Some order_depth \<Rightarrow>
     (case position_limits product of
        None \<Rightarrow> Inl KeyError
      | Some position_limit \<Rightarrow>
     (let current_position = position_get state product in
      case r1_mid_price order_depth product ph0 of
        Inl e \<Rightarrow> Inl e
      | Inr (mid_price, ph) \<Rightarrow>
     (case r1_history ph product mid_price of
        Inl e \<Rightarrow> Inl e
      | Inr history \<Rightarrow>
     (case r1_fair_price history of
        Inl e \<Rightarrow> Inl e
      | Inr fair_price \<Rightarrow>
          if product = ''SQUID_INK'' then Inr (ph, result(product \<mapsto> []))
          else Inr (ph, result(product \<mapsto>
                 book_walk product fair_price position_limit order_depth current_position)))))))"

fun r1_loop ::
  "trading_state \<Rightarrow> string list \<Rightarrow> json \<times> (string \<rightharpoonup> order list)
     \<Rightarrow> error + json \<times> (string \<rightharpoonup> order list)" where
  "r1_loop state [] acc = Inr acc"
| "r1_loop state (product # products) acc =
     (case r1_product state product acc of
        Inl e \<Rightarrow> Inl e
      | Inr acc' \<Rightarrow> r1_loop state products acc')"

text \<open>\<^verbatim>\<open>run\<close> (lines 7-79).\<close>

definition r1_run :: "trading_state \<Rightarrow> error + (string \<rightharpoonup> order list) \<times> int \<times> blob" where
  "r1_run state =
     (let conversions = 0 in
      case r1_load (traderData state) of
        Inl e \<Rightarrow> Inl e
      | Inr price_history0 \<Rightarrow>
          (case r1_loop state (dict_keys (order_depths state)) (price_history0, Map.empty) of
             Inl e \<Rightarrow> Inl e
           | Inr (ph, result) \<Rightarrow> Inr (result, conversions, json_dumps ph)))"

section \<open>The composite fair value in the words of the specification\<close>

text \<open>
  The composite fair value in the words of the specification, for comparison with
  \<open>calculate_fair_value\<close>. A component is usable when its book is there and has a bid and
  an ask side. The volume-weighted average price of a side is the sum of price times
  volume over its levels, divided by the sum of the volumes; the volume of an ask level is
  the magnitude of its (negative) entry. The value is unavailable when a component is not
  usable, and otherwise the sum over the components of the quantity times the mean of the
  two average prices.
\<close>

definition two_sided :: "trading_state \<Rightarrow> string \<Rightarrow> bool" where
  "two_sided state c =
     (case map_of (order_depths state) c of
        None \<Rightarrow> False
      | Some depth \<Rightarrow> buy_orders depth \<noteq> [] \<and> sell_orders depth \<noteq> [])"

definition bid_levels :: "order_depth \<Rightarrow> (int \<times> int) list" where
  "bid_levels depth = dict_items (buy_orders depth)"

definition ask_levels :: "order_depth \<Rightarrow> (int \<times> int) list" where
  "ask_levels depth = map (\<lambda>(p, v). (p, \<bar>v\<bar>)) (dict_items (sell_orders depth))"

definition total_volume :: "(int \<times> int) list \<Rightarrow> int" where
  "total_volume levels = sum_list (map snd levels)"

definition spec_vwap :: "(int \<times> int) list \<Rightarrow> real" where
  "spec_vwap levels =
     real_of_int (sum_list (map (\<lambda>(p, w). p * w) levels)) / real_of_int (total_volume levels)"

definition spec_leg :: "trading_state \<Rightarrow> string \<Rightarrow> real" where
  "spec_leg state c =
     (case map_of (order_depths state) c of
        None \<Rightarrow> 0
      | Some depth \<Rightarrow> (spec_vwap (bid_levels depth) + spec_vwap (ask_levels depth)) / 2)"

definition spec_fair_value :: "(string, int) dict \<Rightarrow> trading_state \<Rightarrow> real option" where
  "spec_fair_value components state =
     (if list_all (two_sided state) (dict_keys components)
      then Some (sum_list (map (\<lambda>(c, q). real_of_int q * spec_leg state c) (dict_items components)))
      else None)"

text \<open>
  A component's volumes are nonzero when its book is missing or one-sided (it is then not
  usable anyway) or the volumes of each side add up to something else than zero.
\<close>

definition leg_ok :: "trading_state \<Rightarrow> string \<Rightarrow> bool" where
  "leg_ok state c =
     (case map_of (order_depths state) c of
        None \<Rightarrow> True
      | Some depth \<Rightarrow>
          buy_orders depth = [] \<or> sell_orders depth = [] \<or>
          (total_volume (bid_levels depth) \<noteq> 0 \<and> total_volume (ask_levels depth) \<noteq> 0))"

definition volumes_nonzero :: "(string, int) dict \<Rightarrow> trading_state \<Rightarrow> bool" where
  "volumes_nonzero components state = list_all (leg_ok state) (dict_keys components)"

text \<open>
  The data model of the specification (section 3, the order book snapshot): the volume of
  a bid level is positive, and the volume of an ask level is a magnitude written with a
  sign, the negative one by convention, so it is not zero. \<open>data_model\<close>: every book of the
  snapshot is so.
\<close>

definition volumes_ok :: "order_depth \<Rightarrow> bool" where
  "volumes_ok depth =
     (list_all (\<lambda>(p, v). 0 < v) (buy_orders depth) \<and> list_all (\<lambda>(p, v). v \<noteq> 0) (sell_orders depth))"

definition data_model :: "trading_state \<Rightarrow> bool" where
  "data_model state = list_all (\<lambda>(product, depth). volumes_ok depth) (order_depths state)"

section \<open>Position limits\<close>

text \<open>
  \<open>within_limit L p orders\<close>: applied in their order to the position \<open>p\<close>, the orders keep
  the running position inside \<open>[-L, L]\<close> after every order.
\<close>

fun within_limit :: "int \<Rightarrow> int \<Rightarrow> order list \<Rightarrow> bool" where
  "within_limit L p [] = True"
| "within_limit L p (x # xs) = (\<bar>p + quantity x\<bar> \<le> L \<and> within_limit L (p + quantity x) xs)"

text \<open>The sign convention of the exchange: no ask volume is positive, no bid volume negative.\<close>

definition signs_ok :: "order_depth \<Rightarrow> bool" where
  "signs_ok depth =
     (list_all (\<lambda>(p, v). v \<le> 0) (sell_orders depth) \<and> list_all (\<lambda>(p, v). 0 \<le> v) (buy_orders depth))"

text \<open>The invariant of the two loops of the book walk, started at the position \<open>p0\<close>.\<close>

definition walk_inv :: "int \<Rightarrow> int \<Rightarrow> int \<times> order list \<Rightarrow> bool" where
  "walk_inv L p0 acc =
     (\<bar>fst acc\<bar> \<le> L \<and> fst acc = p0 + sum_list (map quantity (snd acc)) \<and>
      within_limit L p0 (snd acc))"

text \<open>
  The orders a tick emits for a product: its entry in the output mapping, and nothing when
  it has none.
\<close>

definition emitted :: "(string \<rightharpoonup> order list) \<Rightarrow> string \<Rightarrow> order list" where
  "emitted result product = (case result product of None \<Rightarrow> [] | Some os \<Rightarrow> os)"

definition signs_ok_at :: "trading_state \<Rightarrow> string \<Rightarrow> bool" where
  "signs_ok_at state product =
     (case map_of (order_depths state) product of None \<Rightarrow> True | Some depth \<Rightarrow> signs_ok depth)"

text \<open>
  The position limits of ROUND-3: \<^verbatim>\<open>vr_max_short\<close> for the vouchers, \<^verbatim>\<open>pb_position_limits\<close>
  for the other products.
\<close>

definition r3_limit :: "string \<rightharpoonup> int" where
  "r3_limit product =
     (if startswith product ''VOLCANIC_ROCK_VOUCHER'' then Some vr_max_short
      else pb_position_limits product)"

text \<open>
  \<open>safe_result limits state result\<close>: every entry of the output mapping keeps its product
  inside the limit, when the product starts inside it and its book follows the sign
  convention.
\<close>

definition safe_for :: "(string \<rightharpoonup> int) \<Rightarrow> trading_state \<Rightarrow> string \<Rightarrow> order list \<Rightarrow> bool" where
  "safe_for limits state product os =
     (case limits product of
        None \<Rightarrow> True
      | Some L \<Rightarrow>
          \<bar>position_get state product\<bar> \<le> L \<and> signs_ok_at state product \<longrightarrow>
          within_limit L (position_get state product) os)"

definition safe_result :: "(string \<rightharpoonup> int) \<Rightarrow> trading_state \<Rightarrow> (string \<rightharpoonup> order list) \<Rightarrow> bool" where
  "safe_result limits state result =
     (\<forall>product os. result product = Some os \<longrightarrow> safe_for limits state product os)"

section \<open>One-sided books and well-formed histories\<close>

text \<open>A product of the snapshot whose book has an empty bid side or an empty ask side.\<close>

definition one_sided :: "trading_state \<Rightarrow> string \<Rightarrow> bool" where
  "one_sided state product =
     (case map_of (order_depths state) product of
        None \<Rightarrow> False
      | Some depth \<Rightarrow> buy_orders depth = [] \<or> sell_orders depth = [])"

text \<open>A price history as the engines write it: every entry is a list of numbers.\<close>

definition is_history :: "json \<Rightarrow> bool" where
  "is_history v = (case v of JArr xs \<Rightarrow> py_numbers xs \<noteq> None | _ \<Rightarrow> False)"

definition histories_ok :: "(json, json) dict \<Rightarrow> bool" where
  "histories_ok d = list_all (\<lambda>(k, v). is_history v) d"

section \<open>Vouchers and the start of a tick\<close>

text \<open>The strike of a voucher, as \<^verbatim>\<open>vr_short_itm_voucher\<close> reads it from the identifier.\<close>

definition strike :: "string \<Rightarrow> error + int" where
  "strike product = py_int (last (str_split CHR ''_'' product))"

text \<open>
  The vouchers of a snapshot: its products whose name starts with
  \<^verbatim>\<open>VOLCANIC_ROCK_VOUCHER\<close>. \<open>strikes_parse\<close>: each of them ends in a strike.
\<close>

definition vouchers :: "trading_state \<Rightarrow> string list" where
  "vouchers state = filter (\<lambda>p. startswith p ''VOLCANIC_ROCK_VOUCHER'') (dict_keys (order_depths state))"

definition strikes_parse :: "trading_state \<Rightarrow> bool" where
  "strikes_parse state = list_all (\<lambda>p. case strike p of Inl e \<Rightarrow> False | Inr K \<Rightarrow> True) (vouchers state)"

text \<open>
  The first part of \<^verbatim>\<open>run\<close> in ROUND-3, up to the update of the underlying price: the
  trader with its state restored from the blob and the market data of the tick read.
\<close>

definition r3_enter :: "r3_trader \<Rightarrow> trading_state \<Rightarrow> r3_trader" where
  "r3_enter self state =
     vr_update_market_data
       (self\<lparr>trader_data :=
               restore restore_key trader_data_keys (trader_data self) (traderData state)\<rparr>) state"

section \<open>The adaptive buffer in the words of the specification\<close>

text \<open>
  A bounded first-in first-out history: the new observation goes last, and the oldest one
  is dropped when the length exceeds the bound. \<open>clamp\<close> confines a value to an interval.
\<close>

definition fifo_push :: "nat \<Rightarrow> 'a list \<Rightarrow> 'a \<Rightarrow> 'a list" where
  "fifo_push bound h x = (if length (h @ [x]) > bound then tl (h @ [x]) else h @ [x])"

definition clamp :: "real \<Rightarrow> real \<Rightarrow> real \<Rightarrow> real" where
  "clamp x lo hi = max lo (min hi x)"

text \<open>
  The buffer parameters after an observation: recomputed from the median of the history
  once it holds five observations, kept below that.
\<close>

definition spec_buffer :: "params \<Rightarrow> real list \<Rightarrow> params" where
  "spec_buffer ps history =
     (if length history \<ge> 5
      then ps\<lparr>current_buffer :=
                clamp (statistics_median history * buffer_multiplier ps) (min_buffer ps) (max_buffer ps)\<rparr>
      else ps)"

section \<open>Serialising and resuming\<close>

text \<open>
  \<open>r3_resume b\<close> is a fresh trader of ROUND-3 after the restoration of the blob \<open>b\<close>: what a
  new process holds when it resumes from the blob of the tick before.
  \<open>has_baskets\<close>: the spread histories have the two basket keys, as in a fresh trader.
\<close>

definition r3_resume :: "blob \<Rightarrow> r3_trader" where
  "r3_resume b =
     r3_init\<lparr>trader_data := restore restore_key trader_data_keys (trader_data r3_init) b\<rparr>"

text \<open>The keys of a dictionary are strings, as those of a decoded JSON object are.\<close>

definition str_keys :: "(json, json) dict \<Rightarrow> bool" where
  "str_keys d = list_all (\<lambda>(k, v). case k of JStr s \<Rightarrow> True | _ \<Rightarrow> False) d"

definition has_baskets :: "'a trader_data_scheme \<Rightarrow> bool" where
  "has_baskets td =
     (map_of (spread_history td) (JStr ''PICNIC_BASKET1'') \<noteq> None \<and>
      map_of (spread_history td) (JStr ''PICNIC_BASKET2'') \<noteq> None)"

section \<open>Properties\<close>

subsection \<open>Dictionaries\<close>

lemma dict_get_in: "k \<in> fst ` set d \<Longrightarrow> (k, the (map_of d k)) \<in> set d"
proof -
  assume "k \<in> fst ` set d"
  then have "map_of d k \<noteq> None" by (simp add: map_of_eq_None_iff)
  then obtain v where "map_of d k = Some v" by blast
  then show ?thesis by (simp add: map_of_SomeD)
qed

lemma dict_items_subset: "set (dict_items d) \<subseteq> set d"
  by (auto simp: dict_items_def dict_keys_def intro: dict_get_in)

lemma ascending_set: "set (ascending d) = set (dict_items d)"
  by (simp add: ascending_def)

lemma descending_set: "set (descending d) = set (dict_items d)"
  by (simp add: descending_def)

lemma ascending_sorted: "sorted (map fst (ascending d))"
  by (simp add: ascending_def)

lemma descending_sorted: "sorted (rev (map fst (descending d)))"
  by (simp add: descending_def rev_map)

subsection \<open>The book walk against the specification\<close>

lemma fold_buy_spec:
  "\<forall>v \<in> snd ` set levels. v \<le> 0 \<Longrightarrow>
   fold (buy_level product F L) levels (p, os) =
     (snd (spec_buy product F L levels p), os @ fst (spec_buy product F L levels p))"
proof (induction levels arbitrary: p os)
  case Nil
  then show ?case by simp
next
  case (Cons lv levels)
  obtain a v where lv: "lv = (a, v)" by (cases lv)
  from Cons.prems lv have v: "v \<le> 0" and rest: "\<forall>v \<in> snd ` set levels. v \<le> 0" by auto
  from v have abs: "\<bar>v\<bar> = - v" by simp
  show ?case using Cons.IH[OF rest] by (simp add: lv abs Let_def)
qed

lemma fold_sell_spec:
  "fold (sell_level product F L) levels (p, os) =
     (snd (spec_sell product F L levels p), os @ fst (spec_sell product F L levels p))"
proof (induction levels arbitrary: p os)
  case Nil
  then show ?case by simp
next
  case (Cons lv levels)
  obtain b v where lv: "lv = (b, v)" by (cases lv)
  show ?case using Cons.IH by (simp add: lv Let_def)
qed

text \<open>
  Claim C5, as stated, at an ask level with a positive volume: the book
  \<^verbatim>\<open>sell_orders = {99: 5}\<close>, fair price 100, position 0, limit 50. The claim's quantity is
  \<open>min(|5|, 50) = 5\<close>, a buy; the code computes \<^verbatim>\<open>min(-ask_volume, ...)\<close> \<open>= -5\<close> and
  emits a sell of 5 at 99.
\<close>

theorem book_walk_abs_volume_counterexample:
  "book_walk ''A'' 100 50 \<lparr>buy_orders = [], sell_orders = [(99, 5)]\<rparr> 0
     = [\<lparr>symbol = ''A'', price = 99, quantity = - 5\<rparr>]
   \<and> spec_book_walk ''A'' 100 50 \<lparr>buy_orders = [], sell_orders = [(99, 5)]\<rparr> 0
     = [\<lparr>symbol = ''A'', price = 99, quantity = 5\<rparr>]"
  by (simp add: book_walk_def spec_book_walk_def ascending_def descending_def
      dict_items_def dict_keys_def)

text \<open>
  Claim C5, amended: when every ask volume of the book is negative or zero (the exchange's
  sign convention), the orders of the book walk are those of the specification: ask levels
  in ascending price order, each level priced strictly below \<open>F\<close> while the running
  position is below \<open>L\<close> bought at its price for \<open>min(|v|, L - p)\<close>; then bid levels in
  descending price order, each level priced strictly above \<open>F\<close> while the running position
  is above \<open>-L\<close> sold at its price for \<open>min(v, p + L)\<close>; a level priced at \<open>F\<close> gives
  nothing.
\<close>

theorem book_walk_refines_spec:
  assumes "\<forall>v \<in> snd ` set (sell_orders depth). v \<le> 0"
  shows "book_walk product F L depth p = spec_book_walk product F L depth p
         \<and> sorted (map fst (ascending (sell_orders depth)))
         \<and> sorted (rev (map fst (descending (buy_orders depth))))"
proof -
  have "\<forall>v \<in> snd ` set (ascending (sell_orders depth)). v \<le> 0"
    using assms dict_items_subset[of "sell_orders depth"] by (auto simp: ascending_set)
  then show ?thesis
    by (simp add: book_walk_def spec_book_walk_def fold_buy_spec fold_sell_spec Let_def
        ascending_sorted descending_sorted)
qed

theorem book_walk_refines_spec_witness:
  "book_walk ''A'' (201 / 2) 50 \<lparr>buy_orders = [(99, 5)], sell_orders = [(100, - 5)]\<rparr> 0
     = [\<lparr>symbol = ''A'', price = 100, quantity = 5\<rparr>]"
proof -
  have h: "\<forall>v \<in> snd ` set (sell_orders \<lparr>buy_orders = [(99, 5)], sell_orders = [(100, - 5)]\<rparr>). v \<le> (0::int)"
    by simp
  have "book_walk ''A'' (201 / 2) 50 \<lparr>buy_orders = [(99, 5)], sell_orders = [(100, - 5)]\<rparr> 0
      = spec_book_walk ''A'' (201 / 2) 50 \<lparr>buy_orders = [(99, 5)], sell_orders = [(100, - 5)]\<rparr> 0"
    by (rule book_walk_refines_spec[OF h, THEN conjunct1])
  also have "\<dots> = [\<lparr>symbol = ''A'', price = 100, quantity = 5\<rparr>]"
    by (simp add: spec_book_walk_def ascending_def descending_def dict_items_def dict_keys_def)
  finally show ?thesis .
qed

subsection \<open>Evaluation\<close>

text \<open>The definitions that \<open>simp\<close> unfolds to run an engine on a concrete tick.\<close>

lemmas py_defs = dict_keys_def dict_items_def startswith_def py_int_def str_strip_def is_space_def
  unsigned_int_def digit_val_def int_of_float_def position_get_def max_key_def min_key_def
  average_def json_loads_def json_dumps_def

lemmas strategy_defs = mean_reversion_def push_price_def book_walk_def ascending_def descending_def
  update_croissant_history_def calculate_z_score_def threshold_orders_def croissant_window_def
  std_threshold_def max_trade_size_def restore_def restore_body_def restore_key_def
  dict_update_def

lemmas r3_defs = r3_run_def r3_init_def vr_update_market_data_def vr_short_itm_voucher_def
  pb_process_product_def pb_position_limits_def vr_max_short_def trader_data_json_def
  trader_data_keys_def

lemmas r2_defs = r2_run_def r2_init_def r2_product_def POSITION_LIMITS_def trader_data2_json_def
  restore_key2_def trader_data_keys2_def

lemmas r1_defs = r1_run_def r1_load_def r1_product_def position_limits_def r1_push_def
  r1_history_def r1_fair_price_def r1_mid_price_def

subsection \<open>The intrinsic-value short\<close>

lemma voucher_orders:
  assumes "py_int (last (str_split CHR ''_'' product)) = Inr K"
  shows "vr_short_itm_voucher self product state =
     Inr (if vr_price self \<le> real_of_int K \<or> 200 + position_get state product \<le> 0 then []
          else [\<lparr>symbol = product,
                 price = \<lfloor>(vr_price self - real_of_int K) * 0.95\<rfloor>,
                 quantity = - min 10 (200 + position_get state product)\<rparr>])"
proof (cases "vr_price self \<le> real_of_int K")
  case True
  then show ?thesis using assms by (simp add: vr_short_itm_voucher_def)
next
  case False
  then have "0 \<le> (vr_price self - real_of_int K) * 0.95" by simp
  then have "int_of_float ((vr_price self - real_of_int K) * 0.95)
      = \<lfloor>(vr_price self - real_of_int K) * 0.95\<rfloor>"
    by (simp only: int_of_float_def if_True)
  then show ?thesis using assms False
    by (simp add: vr_short_itm_voucher_def vr_max_short_def Let_def)
qed

text \<open>
  Claim C8. For a voucher whose identifier ends in the strike \<open>K\<close> and for every underlying
  fair price \<open>U\<close> (\<^verbatim>\<open>self.vr_price\<close>), \<^verbatim>\<open>vr_short_itm_voucher\<close> returns no order when
  \<open>U \<le> K\<close> or when the short capacity \<open>200 + position\<close> is at most 0; otherwise it returns
  exactly one order, a sale of \<open>min(10, capacity)\<close> at the price \<open>floor((U - K) * 0.95)\<close>.
\<close>

theorem vr_short_itm_voucher_spec:
  assumes "py_int (last (str_split CHR ''_'' product)) = Inr K"
  shows "vr_short_itm_voucher self product state =
     Inr (if vr_price self \<le> real_of_int K \<or> 200 + position_get state product \<le> 0 then []
          else [\<lparr>symbol = product,
                 price = \<lfloor>(vr_price self - real_of_int K) * 0.95\<rfloor>,
                 quantity = - min 10 (200 + position_get state product)\<rparr>])"
  using assms by (rule voucher_orders)

text \<open>
  The scenario of the claim: underlying fair price 10600, strike 10500, position 0 give one
  order of quantity -10 at the price 95.
\<close>

theorem vr_short_itm_voucher_spec_witness:
  "vr_short_itm_voucher (r3_init\<lparr>vr_price := 10600\<rparr>) ''VOLCANIC_ROCK_VOUCHER_10500''
     \<lparr>traderData = Blob_empty, timestamp = 0, order_depths = [], position = Map.empty\<rparr>
   = Inr [\<lparr>symbol = ''VOLCANIC_ROCK_VOUCHER_10500'', price = 95, quantity = - 10\<rparr>]"
proof -
  have k: "py_int (last (str_split CHR ''_'' ''VOLCANIC_ROCK_VOUCHER_10500'')) = Inr 10500"
    by (simp add: py_int_def str_strip_def is_space_def unsigned_int_def digit_val_def)
  show ?thesis
    using vr_short_itm_voucher_spec[OF k, of "r3_init\<lparr>vr_price := 10600\<rparr>"
        "\<lparr>traderData = Blob_empty, timestamp = 0, order_depths = [], position = Map.empty\<rparr>"]
    by (simp add: position_get_def)
qed

subsection \<open>The z-score\<close>

text \<open>
  Claim C7. For every input price \<open>v\<close>, the z-score (\<^verbatim>\<open>calculate_z_score\<close> of ROUND-2,
  \<^verbatim>\<open>pb_calculate_z_score\<close> of ROUND-3) is 0 when the rolling window holds fewer than 100
  observations and when the sample standard deviation of the window is 0; otherwise it is
  \<open>(v - mean) / stdev\<close>, with the mean and the sample standard deviation of the whole
  window. ROUND-2 is read with its line 150 as the comment it was meant to be.
\<close>

theorem calculate_z_score_spec:
  "calculate_z_score window v =
     (if length window < 100 \<or> statistics_stdev window = 0 then 0
      else (v - statistics_mean window) / statistics_stdev window)"
  by (simp add: calculate_z_score_def croissant_window_def Let_def)

lemma sum_list_replicate_real: "sum_list (replicate n (c::real)) = real n * c"
  by (induction n) (simp_all add: algebra_simps)

lemma mean_99_zeros_and_one: "statistics_mean (replicate 99 0 @ [1]) = 1 / 100"
  by (simp add: statistics_mean_def sum_list_replicate_real)

lemma stdev_99_zeros_and_one: "statistics_stdev (replicate 99 0 @ [1]) = 1 / 10"
proof -
  have "sum_list (map (\<lambda>x. (x - 1 / 100)\<^sup>2) (replicate 99 0 @ [1::real])) = 99 / 100"
    by (simp add: sum_list_replicate_real power2_eq_square)
  then have "statistics_stdev (replicate 99 0 @ [1]) = sqrt (1 / 100)"
    by (simp add: statistics_stdev_def mean_99_zeros_and_one)
  also have "\<dots> = 1 / 10"
    by (rule real_sqrt_unique) (simp_all add: power2_eq_square)
  finally show ?thesis .
qed

text \<open>
  Three windows: 99 zeros and a one (mean 1/100, deviation 1/10) with the price 1; 99
  observations; 100 equal observations.
\<close>

theorem calculate_z_score_spec_witness:
  "calculate_z_score (replicate 99 0 @ [1]) 1 = 99 / 10
   \<and> calculate_z_score (replicate 99 5) 7 = 0
   \<and> calculate_z_score (replicate 100 5) 7 = 0"
proof -
  have a: "calculate_z_score (replicate 99 0 @ [1]) 1 = 99 / 10"
    using calculate_z_score_spec[of "replicate 99 0 @ [1]" 1]
    by (simp add: mean_99_zeros_and_one stdev_99_zeros_and_one)
  have b: "calculate_z_score (replicate 99 5) 7 = 0"
    using calculate_z_score_spec[of "replicate 99 5" 7] by simp
  have "sum_list (map (\<lambda>x. (x - 5)\<^sup>2) (replicate 100 (5::real))) = 0"
    by (simp add: sum_list_replicate_real)
  then have "statistics_stdev (replicate 100 5) = 0"
    by (simp add: statistics_stdev_def statistics_mean_def sum_list_replicate_real)
  then have c: "calculate_z_score (replicate 100 5) 7 = 0"
    using calculate_z_score_spec[of "replicate 100 5" 7] by simp
  from a b c show ?thesis by simp
qed

subsection \<open>Restoring the state\<close>

text \<open>
  ROUND-2 and ROUND-3 restore inside \<^verbatim>\<open>try\<close> with a bare \<^verbatim>\<open>except\<close>: the restoration is a
  total function of the blob, and an empty or undecodable blob leaves the state as it
  was.
\<close>

lemma restore_empty: "restore step keys td Blob_empty = td"
  by (simp add: restore_def)

lemma restore_undecodable: "restore step keys td Blob_undecodable = td"
  by (simp add: restore_def json_loads_def)

text \<open>
  A blob that decodes to a value of the wrong shape stops the loop at the first entry
  that cannot be merged; the entries merged before it stay. Here the price history of the
  blob is taken over and the spread history, a number, raises the exception that
  \<^verbatim>\<open>except\<close> swallows.
\<close>

lemma restore_partial_merge:
  "restore restore_key trader_data_keys (trader_data r3_init)
     (Blob_json (JObj [(JStr ''price_history'', JObj [(JStr ''KELP'', JArr [JNum 1])]),
                       (JStr ''spread_history'', JNum 3)]))
   = (trader_data r3_init)\<lparr>price_history := [(JStr ''KELP'', JArr [JNum 1])]\<rparr>"
  by (simp add: py_defs strategy_defs r3_defs)

text \<open>
  Claim C2 fails in ROUND-1, where \<^verbatim>\<open>json.loads\<close> stands outside any \<^verbatim>\<open>try\<close> (lines 13-16):
  on every tick whose blob is not empty and cannot be decoded, \<^verbatim>\<open>run\<close> raises
  \<^verbatim>\<open>JSONDecodeError\<close>, whatever the rest of the state is.
\<close>

theorem r1_run_undecodable_raises:
  "r1_run (state\<lparr>traderData := Blob_undecodable\<rparr>) = Inl JSONDecodeError"
  by (simp add: r1_run_def r1_load_def json_loads_def)

subsection \<open>The composite fair value\<close>

lemma dict_items_keys: "map fst (dict_items d) = dict_keys d"
  by (simp add: dict_items_def comp_def)

lemma bid_vwap_spec:
  "total_volume (bid_levels depth) \<noteq> 0 \<Longrightarrow>
   bid_vwap (buy_orders depth) = Inr (spec_vwap (bid_levels depth))"
  by (simp add: bid_vwap_def true_div_def spec_vwap_def bid_levels_def total_volume_def)

lemma ask_vwap_spec:
  "total_volume (ask_levels depth) \<noteq> 0 \<Longrightarrow>
   ask_vwap (sell_orders depth) = Inr (spec_vwap (ask_levels depth))"
  by (simp add: ask_vwap_def true_div_def spec_vwap_def ask_levels_def total_volume_def
      comp_def case_prod_unfold)

lemma fair_value_loop_spec:
  "list_all (leg_ok state) (map fst comps) \<Longrightarrow>
   fair_value_loop comps state t =
     Inr (if list_all (two_sided state) (map fst comps)
          then Some (t + sum_list (map (\<lambda>(c, q). real_of_int q * spec_leg state c) comps))
          else None)"
proof (induction comps arbitrary: t)
  case Nil
  then show ?case by simp
next
  case (Cons cq comps)
  obtain c q where cq: "cq = (c, q)" by (cases cq)
  from Cons.prems cq have ok: "leg_ok state c" and rest: "list_all (leg_ok state) (map fst comps)"
    by simp_all
  show ?case
  proof (cases "two_sided state c")
    case False
    then show ?thesis by (auto simp: cq two_sided_def split: option.splits)
  next
    case True
    then obtain depth where d: "map_of (order_depths state) c = Some depth"
      and ne: "buy_orders depth \<noteq> []" "sell_orders depth \<noteq> []"
      by (auto simp: two_sided_def split: option.splits)
    from ok d ne have nz: "total_volume (bid_levels depth) \<noteq> 0" "total_volume (ask_levels depth) \<noteq> 0"
      by (simp_all add: leg_ok_def)
    have leg: "spec_leg state c = (spec_vwap (bid_levels depth) + spec_vwap (ask_levels depth)) / 2"
      by (simp add: spec_leg_def d)
    show ?thesis
      using True Cons.IH[OF rest] d ne
      by (simp add: cq bid_vwap_spec[OF nz(1)] ask_vwap_spec[OF nz(2)] leg algebra_simps)
  qed
qed

lemma dict_items_empty: "dict_items d = [] \<longleftrightarrow> d = []"
  by (simp add: dict_items_def dict_keys_def)

lemma sum_list_pos_nonempty:
  fixes xs :: "int list"
  assumes "xs \<noteq> []" and "\<forall>x\<in>set xs. 0 < x"
  shows "0 < sum_list xs"
proof (cases xs)
  case Nil
  with assms(1) show ?thesis by simp
next
  case (Cons a ys)
  from assms(2) Cons have "\<And>x. x \<in> set ys \<Longrightarrow> 0 \<le> x" by auto
  then have "0 \<le> sum_list ys" by (rule sum_list_nonneg)
  moreover from assms(2) Cons have "0 < a" by simp
  ultimately show ?thesis using Cons by simp
qed

lemma dict_items_all:
  assumes "list_all (\<lambda>(p, v). P v) d" and "(p, v) \<in> set (dict_items d)"
  shows "P v"
proof -
  from assms(2) dict_items_subset[of d] have "(p, v) \<in> set d" by blast
  with assms(1) show ?thesis by (auto simp: list_all_iff)
qed

lemma bid_total_positive:
  assumes "list_all (\<lambda>(p, v). 0 < v) (buy_orders depth)" and "buy_orders depth \<noteq> []"
  shows "0 < total_volume (bid_levels depth)"
proof -
  have "\<forall>x\<in>set (map snd (dict_items (buy_orders depth))). 0 < x"
    using dict_items_all[OF assms(1)] by auto
  moreover have "map snd (dict_items (buy_orders depth)) \<noteq> []"
    using assms(2) by (simp add: dict_items_empty)
  ultimately show ?thesis
    unfolding total_volume_def bid_levels_def by (rule sum_list_pos_nonempty[rotated])
qed

lemma ask_total_positive:
  assumes "list_all (\<lambda>(p, v). v \<noteq> 0) (sell_orders depth)" and "sell_orders depth \<noteq> []"
  shows "0 < total_volume (ask_levels depth)"
proof -
  have "\<forall>x\<in>set (map snd (map (\<lambda>(p, v). (p, \<bar>v\<bar>)) (dict_items (sell_orders depth)))). 0 < x"
    using dict_items_all[OF assms(1)] by auto
  moreover have "map snd (map (\<lambda>(p, v). (p, \<bar>v\<bar>)) (dict_items (sell_orders depth))) \<noteq> []"
    using assms(2) by (simp add: dict_items_empty)
  ultimately show ?thesis
    unfolding total_volume_def ask_levels_def by (rule sum_list_pos_nonempty[rotated])
qed

lemma data_model_volumes_nonzero:
  assumes "data_model state"
  shows "volumes_nonzero components state"
proof -
  have "leg_ok state c" for c
  proof (cases "map_of (order_depths state) c")
    case None
    then show ?thesis by (simp add: leg_ok_def)
  next
    case (Some depth)
    then have "(c, depth) \<in> set (order_depths state)" by (rule map_of_SomeD)
    with assms have ok: "volumes_ok depth" by (auto simp: data_model_def list_all_iff)
    show ?thesis
    proof (cases "buy_orders depth = [] \<or> sell_orders depth = []")
      case True
      with Some show ?thesis by (auto simp: leg_ok_def)
    next
      case False
      with ok bid_total_positive[of depth] ask_total_positive[of depth]
      have "total_volume (bid_levels depth) \<noteq> 0 \<and> total_volume (ask_levels depth) \<noteq> 0"
        by (simp add: volumes_ok_def)
      with Some show ?thesis by (simp add: leg_ok_def)
    qed
  qed
  then show ?thesis by (simp add: volumes_nonzero_def list_all_iff)
qed

lemma fair_value_volumes_nonzero:
  assumes "volumes_nonzero components state"
  shows "calculate_fair_value components state = Inr (spec_fair_value components state)"
proof -
  have "list_all (leg_ok state) (map fst (dict_items components))"
    using assms by (simp add: volumes_nonzero_def dict_items_keys)
  from fair_value_loop_spec[OF this, of 0] show ?thesis
    by (simp add: calculate_fair_value_def spec_fair_value_def dict_items_keys)
qed

text \<open>
  Outside the data model the division can fail: with the only bid level \<^verbatim>\<open>{100: 0}\<close> of
  CROISSANTS the bid volumes add up to zero and \<^verbatim>\<open>calculate_fair_value\<close> raises
  \<^verbatim>\<open>ZeroDivisionError\<close>.
\<close>

lemma calculate_fair_value_zero_volume:
  "calculate_fair_value [(''CROISSANTS'', 4), (''JAMS'', 2)]
     \<lparr>traderData = Blob_empty, timestamp = 0,
      order_depths = [(''CROISSANTS'', \<lparr>buy_orders = [(100, 0)], sell_orders = [(101, - 1)]\<rparr>),
                      (''JAMS'', \<lparr>buy_orders = [(50, 2)], sell_orders = [(52, - 2)]\<rparr>)],
      position = Map.empty\<rparr> = Inl ZeroDivisionError"
  by (simp add: calculate_fair_value_def bid_vwap_def ask_vwap_def true_div_def
      dict_items_def dict_keys_def)

text \<open>
  Claim C6. For every component list (every composite product with its quantities \<open>q\<close>)
  and every snapshot of the data model (bid volumes positive, ask volumes not zero),
  \<^verbatim>\<open>calculate_fair_value\<close> of ROUND-2 raises nothing and returns the composite fair value in
  the words of the specification: \<^verbatim>\<open>None\<close> if and only if the book of a component is
  missing or has an empty bid or ask side, and otherwise the sum over the components of
  \<open>q * (bid_vwap + ask_vwap) / 2\<close>, each VWAP the volume-weighted average price over all
  levels of the side. ROUND-2 is read with its line 150 as the comment it was meant to be.
\<close>

theorem calculate_fair_value_spec:
  assumes "data_model state"
  shows "calculate_fair_value components state = Inr (spec_fair_value components state)
       \<and> (calculate_fair_value components state = Inr None)
           = (\<exists>c\<in>set (dict_keys components). \<not> two_sided state c)"
proof -
  have eq: "calculate_fair_value components state = Inr (spec_fair_value components state)"
    by (rule fair_value_volumes_nonzero[OF data_model_volumes_nonzero[OF assms]])
  have "(spec_fair_value components state = None)
           = (\<exists>c\<in>set (dict_keys components). \<not> two_sided state c)"
    by (simp add: spec_fair_value_def list_all_iff)
  with eq show ?thesis by simp
qed

text \<open>
  PICNIC_BASKET2 with CROISSANTS at bids \<^verbatim>\<open>{100: 1, 98: 3}\<close>, ask \<^verbatim>\<open>{102: -1}\<close> and JAMS at
  \<^verbatim>\<open>{50: 2}\<close>, \<^verbatim>\<open>{52: -2}\<close>: \<open>4 * (98.5 + 102) / 2 + 2 * (50 + 52) / 2 = 503\<close>; with no
  asks of JAMS, and with the JAMS book missing: unavailable.
\<close>

theorem calculate_fair_value_spec_witness:
  "calculate_fair_value (the (map_of COMPONENTS ''PICNIC_BASKET2''))
     \<lparr>traderData = Blob_empty, timestamp = 0,
      order_depths = [(''CROISSANTS'', \<lparr>buy_orders = [(100, 1), (98, 3)], sell_orders = [(102, - 1)]\<rparr>),
                      (''JAMS'', \<lparr>buy_orders = [(50, 2)], sell_orders = [(52, - 2)]\<rparr>)],
      position = Map.empty\<rparr> = Inr (Some 503)
   \<and> calculate_fair_value (the (map_of COMPONENTS ''PICNIC_BASKET2''))
     \<lparr>traderData = Blob_empty, timestamp = 0,
      order_depths = [(''CROISSANTS'', \<lparr>buy_orders = [(100, 1), (98, 3)], sell_orders = [(102, - 1)]\<rparr>),
                      (''JAMS'', \<lparr>buy_orders = [(50, 2)], sell_orders = []\<rparr>)],
      position = Map.empty\<rparr> = Inr None
   \<and> calculate_fair_value (the (map_of COMPONENTS ''PICNIC_BASKET2''))
     \<lparr>traderData = Blob_empty, timestamp = 0,
      order_depths = [(''CROISSANTS'', \<lparr>buy_orders = [(100, 1), (98, 3)], sell_orders = [(102, - 1)]\<rparr>)],
      position = Map.empty\<rparr> = Inr None"
proof -
  let ?c = "[(''CROISSANTS'', 4), (''JAMS'', 2)] :: (string, int) dict"
  let ?s = "\<lparr>traderData = Blob_empty, timestamp = 0,
      order_depths = [(''CROISSANTS'', \<lparr>buy_orders = [(100, 1), (98, 3)], sell_orders = [(102, - 1)]\<rparr>),
                      (''JAMS'', \<lparr>buy_orders = [(50, 2)], sell_orders = [(52, - 2)]\<rparr>)],
      position = Map.empty\<rparr>"
  let ?u = "\<lparr>traderData = Blob_empty, timestamp = 0,
      order_depths = [(''CROISSANTS'', \<lparr>buy_orders = [(100, 1), (98, 3)], sell_orders = [(102, - 1)]\<rparr>),
                      (''JAMS'', \<lparr>buy_orders = [(50, 2)], sell_orders = []\<rparr>)],
      position = Map.empty\<rparr>"
  let ?t = "\<lparr>traderData = Blob_empty, timestamp = 0,
      order_depths = [(''CROISSANTS'', \<lparr>buy_orders = [(100, 1), (98, 3)], sell_orders = [(102, - 1)]\<rparr>)],
      position = Map.empty\<rparr>"
  have c: "the (map_of COMPONENTS ''PICNIC_BASKET2'') = ?c"
    by (simp add: COMPONENTS_def)
  have hs: "data_model ?s" by (simp add: data_model_def volumes_ok_def)
  have hu: "data_model ?u" by (simp add: data_model_def volumes_ok_def)
  have ht: "data_model ?t" by (simp add: data_model_def volumes_ok_def)
  have vs: "spec_fair_value ?c ?s = Some 503"
    by (simp add: spec_fair_value_def dict_keys_def dict_items_def bid_levels_def
        ask_levels_def total_volume_def two_sided_def spec_leg_def spec_vwap_def)
  have vu: "spec_fair_value ?c ?u = None"
    by (simp add: spec_fair_value_def dict_keys_def two_sided_def)
  have vt: "spec_fair_value ?c ?t = None"
    by (simp add: spec_fair_value_def dict_keys_def two_sided_def)
  from calculate_fair_value_spec[OF hs, THEN conjunct1, of ?c]
    calculate_fair_value_spec[OF hu, THEN conjunct1, of ?c]
    calculate_fair_value_spec[OF ht, THEN conjunct1, of ?c] vs vu vt c
  show ?thesis by simp
qed

subsection \<open>Position limits of the order generators\<close>

lemma within_limit_snoc:
  "within_limit L p0 (os @ [x]) =
     (within_limit L p0 os \<and> \<bar>p0 + sum_list (map quantity os) + quantity x\<bar> \<le> L)"
  by (induction os arbitrary: p0) (auto simp: algebra_simps)

lemma buy_level_inv:
  "v \<le> 0 \<Longrightarrow> walk_inv L p0 acc \<Longrightarrow> walk_inv L p0 (buy_level product F L (a, v) acc)"
  by (cases acc) (auto simp: walk_inv_def within_limit_snoc Let_def min_def)

lemma sell_level_inv:
  "0 \<le> v \<Longrightarrow> walk_inv L p0 acc \<Longrightarrow> walk_inv L p0 (sell_level product F L (b, v) acc)"
  by (cases acc) (auto simp: walk_inv_def within_limit_snoc Let_def min_def)

lemma fold_buy_inv:
  "list_all (\<lambda>(a, v). v \<le> 0) levels \<Longrightarrow> walk_inv L p0 acc \<Longrightarrow>
   walk_inv L p0 (fold (buy_level product F L) levels acc)"
proof (induction levels arbitrary: acc)
  case Nil
  then show ?case by simp
next
  case (Cons lv levels)
  obtain a v where lv: "lv = (a, v)" by (cases lv)
  from Cons.prems(1) lv have v: "v \<le> 0" and rest: "list_all (\<lambda>(a, v). v \<le> 0) levels"
    by simp_all
  from Cons.IH[OF rest buy_level_inv[OF v Cons.prems(2)]] show ?case by (simp add: lv)
qed

lemma fold_sell_inv:
  "list_all (\<lambda>(b, v). 0 \<le> v) levels \<Longrightarrow> walk_inv L p0 acc \<Longrightarrow>
   walk_inv L p0 (fold (sell_level product F L) levels acc)"
proof (induction levels arbitrary: acc)
  case Nil
  then show ?case by simp
next
  case (Cons lv levels)
  obtain b v where lv: "lv = (b, v)" by (cases lv)
  from Cons.prems(1) lv have v: "0 \<le> v" and rest: "list_all (\<lambda>(b, v). 0 \<le> v) levels"
    by simp_all
  from Cons.IH[OF rest sell_level_inv[OF v Cons.prems(2)]] show ?case by (simp add: lv)
qed

lemma list_all_subset: "set xs \<subseteq> set ys \<Longrightarrow> list_all P ys \<Longrightarrow> list_all P xs"
  by (auto simp: list_all_iff)

lemma book_walk_within_limit:
  assumes "signs_ok depth" and "\<bar>p\<bar> \<le> L"
  shows "within_limit L p (book_walk product F L depth p)"
proof -
  have a: "list_all (\<lambda>(a, v). v \<le> 0) (ascending (sell_orders depth))"
    using assms(1) dict_items_subset[of "sell_orders depth"]
    by (auto simp: signs_ok_def ascending_set list_all_iff)
  have b: "list_all (\<lambda>(b, v). 0 \<le> v) (descending (buy_orders depth))"
    using assms(1) dict_items_subset[of "buy_orders depth"]
    by (auto simp: signs_ok_def descending_set list_all_iff)
  have "walk_inv L p (p, [])" using assms(2) by (simp add: walk_inv_def)
  from fold_sell_inv[OF b fold_buy_inv[OF a this]] show ?thesis
    by (simp add: book_walk_def walk_inv_def)
qed

lemma threshold_orders_within_limit:
  "\<bar>p\<bar> \<le> L \<Longrightarrow> within_limit L p (threshold_orders product z L p best_bid best_ask)"
  by (auto simp: threshold_orders_def max_trade_size_def Let_def min_def)

lemma voucher_within_limit:
  "\<bar>position_get state product\<bar> \<le> 200 \<Longrightarrow> vr_short_itm_voucher self product state = Inr os \<Longrightarrow>
   within_limit 200 (position_get state product) os"
  by (auto simp: vr_short_itm_voucher_def vr_max_short_def Let_def min_def
      split: sum.splits if_splits)

subsection \<open>Price histories\<close>

lemma map_of_dict_set: "map_of (dict_set d k v) = (map_of d)(k \<mapsto> v)"
  by (induction d) (auto simp: fun_eq_iff)

lemma histories_ok_dict_set:
  "histories_ok d \<Longrightarrow> is_history v \<Longrightarrow> histories_ok (dict_set d k v)"
  by (induction d) (auto simp: histories_ok_def)

lemma histories_ok_lookup: "histories_ok d \<Longrightarrow> map_of d k = Some v \<Longrightarrow> is_history v"
  by (auto simp: histories_ok_def list_all_iff dest!: map_of_SomeD)

lemma py_numbers_iff: "py_numbers xs \<noteq> None \<longleftrightarrow> list_all (\<lambda>x. py_number x \<noteq> None) xs"
  by (induction xs) (auto split: option.splits)

lemma py_numbers_length: "py_numbers xs = Some ns \<Longrightarrow> length ns = length xs"
  by (induction xs arbitrary: ns) (auto split: option.splits)

lemma is_history_iff: "is_history (JArr h) = list_all (\<lambda>x. py_number x \<noteq> None) h"
  using py_numbers_iff[of h] by (simp add: is_history_def)

lemma is_history_push:
  "is_history (JArr h) \<Longrightarrow>
   is_history (JArr (if length (h @ [JNum m]) > 5
                     then drop (length (h @ [JNum m]) - 5) (h @ [JNum m]) else h @ [JNum m]))"
  by (auto simp: is_history_iff list_all_iff dest: in_set_dropD)

lemma average_total:
  assumes "is_history (JArr h)" and "h \<noteq> []"
  shows "\<exists>F. average h = Inr F"
proof -
  from assms(1) obtain ns where ns: "py_numbers h = Some ns"
    by (auto simp: is_history_def)
  from py_numbers_length[OF ns] assms(2) have "ns \<noteq> []" by auto
  with ns show ?thesis by (simp add: average_def)
qed

lemma push_price_total:
  assumes "histories_ok ph"
  shows "\<exists>ph' h. push_price ph product mid = Inr ph' \<and> histories_ok ph'
           \<and> map_of ph' (JStr product) = Some (JArr h) \<and> h \<noteq> [] \<and> is_history (JArr h)"
proof -
  define ph1 where "ph1 = (if map_of ph (JStr product) = None
                then dict_set ph (JStr product) (JArr []) else ph)"
  have ok1: "histories_ok ph1"
    using assms by (simp add: ph1_def histories_ok_dict_set is_history_def)
  have "map_of ph1 (JStr product) \<noteq> None"
    by (auto simp: ph1_def map_of_dict_set)
  then obtain v where v: "map_of ph1 (JStr product) = Some v" by blast
  with ok1 have "is_history v" by (rule histories_ok_lookup)
  then obtain h where h: "v = JArr h" and hh: "is_history (JArr h)"
    by (cases v) (simp_all add: is_history_def)
  let ?h1 = "h @ [JNum mid]"
  let ?h2 = "if length ?h1 > 5 then drop (length ?h1 - 5) ?h1 else ?h1"
  have h2: "is_history (JArr ?h2)" using hh by (rule is_history_push)
  have ne: "?h2 \<noteq> []" by simp
  have "push_price ph product mid = Inr (dict_set ph1 (JStr product) (JArr ?h2))"
    using v h by (simp add: push_price_def ph1_def[symmetric] Let_def)
  moreover have "histories_ok (dict_set ph1 (JStr product) (JArr ?h2))"
    using ok1 h2 by (rule histories_ok_dict_set)
  moreover have "map_of (dict_set ph1 (JStr product) (JArr ?h2)) (JStr product) = Some (JArr ?h2)"
    by (simp add: map_of_dict_set)
  ultimately show ?thesis using h2 ne by blast
qed

lemma mean_reversion_total:
  assumes "histories_ok ph"
  shows "\<exists>F ph'. mean_reversion ph product mid L depth pos = Inr (book_walk product F L depth pos, ph')
           \<and> histories_ok ph'"
proof -
  from push_price_total[OF assms, of product mid] obtain ph' h where
    p: "push_price ph product mid = Inr ph'" and ok: "histories_ok ph'"
    and m: "map_of ph' (JStr product) = Some (JArr h)" and ne: "h \<noteq> []" and hh: "is_history (JArr h)"
    by blast
  from average_total[OF hh ne] obtain F where "average h = Inr F" by blast
  with p m ok show ?thesis by (auto simp: mean_reversion_def)
qed

lemma mean_reversion_orders:
  "mean_reversion ph product mid L depth pos = Inr (os, ph') \<Longrightarrow>
   \<exists>F. os = book_walk product F L depth pos"
  by (auto simp: mean_reversion_def split: sum.splits option.splits json.splits)

subsection \<open>The loops of ROUND-3\<close>

lemma pb_limit_not_voucher:
  "pb_position_limits p = Some L \<Longrightarrow> \<not> startswith p ''VOLCANIC_ROCK_VOUCHER''"
  by (auto simp: pb_position_limits_def startswith_def split: if_splits)

lemma r3_limit_pb: "pb_position_limits p = Some L \<Longrightarrow> r3_limit p = Some L"
  using pb_limit_not_voucher[of p L] by (simp add: r3_limit_def)

lemma pb_process_product_one_sided:
  assumes "one_sided state p" and "pb_position_limits p = Some L"
  shows "pb_process_product self p state = Inr ([], self)"
  using assms by (auto simp: pb_process_product_def one_sided_def Let_def split: option.splits)

lemma pb_process_product_cases:
  assumes "pb_process_product self p state = Inr (os, self')"
  shows "\<exists>depth L. map_of (order_depths state) p = Some depth \<and> pb_position_limits p = Some L
           \<and> vr_price self' = vr_price self
           \<and> (os = [] \<or> (\<exists>F. os = book_walk p F L depth (position_get state p))
                \<or> (\<exists>z b a. os = threshold_orders p z L (position_get state p) b a))"
proof -
  from assms obtain depth where d: "map_of (order_depths state) p = Some depth"
    by (auto simp: pb_process_product_def split: option.splits)
  from assms d obtain L where l: "pb_position_limits p = Some L"
    by (auto simp: pb_process_product_def split: option.splits)
  show ?thesis
  proof (cases "buy_orders depth = [] \<or> sell_orders depth = []")
    case True
    with assms d l show ?thesis by (auto simp: pb_process_product_def)
  next
    case False
    show ?thesis
    proof (cases "p \<in> set [''RAINFOREST_RESIN'', ''KELP'']")
      case True
      with assms d l False obtain ph where
        m: "mean_reversion (price_history (trader_data self)) p
              (real_of_int (max_key (buy_orders depth) + min_key (sell_orders depth)) / 2)
              L depth (position_get state p) = Inr (os, ph)"
        and s: "self' = self\<lparr>trader_data := (trader_data self)\<lparr>price_history := ph\<rparr>\<rparr>"
        by (auto simp: pb_process_product_def Let_def split: sum.splits)
      from mean_reversion_orders[OF m] s d l show ?thesis by auto
    next
      case notmr: False
      show ?thesis
      proof (cases "p = ''CROISSANTS''")
        case True
        with assms d l False notmr show ?thesis
          by (auto simp: pb_process_product_def Let_def)
      next
        case False
        with assms d l \<open>\<not> (buy_orders depth = [] \<or> sell_orders depth = [])\<close> notmr show ?thesis
          by (auto simp: pb_process_product_def Let_def)
      qed
    qed
  qed
qed

lemma pb_process_product_safe:
  assumes "pb_process_product self p state = Inr (os, self')"
  shows "safe_for r3_limit state p os"
proof -
  from pb_process_product_cases[OF assms] obtain depth L where
    d: "map_of (order_depths state) p = Some depth" and l: "pb_position_limits p = Some L"
    and c: "os = [] \<or> (\<exists>F. os = book_walk p F L depth (position_get state p))
                \<or> (\<exists>z b a. os = threshold_orders p z L (position_get state p) b a)"
    by blast
  have "within_limit L (position_get state p) os"
    if "\<bar>position_get state p\<bar> \<le> L" and "signs_ok_at state p"
  proof -
    from that(2) d have "signs_ok depth" by (simp add: signs_ok_at_def)
    with c that(1) show ?thesis
      by (auto intro: book_walk_within_limit threshold_orders_within_limit)
  qed
  then show ?thesis by (simp add: safe_for_def r3_limit_pb[OF l])
qed

lemma pb_process_product_total:
  assumes "histories_ok (price_history (trader_data self))"
    and "map_of (order_depths state) p = Some depth" and "pb_position_limits p = Some L"
  shows "\<exists>os self'. pb_process_product self p state = Inr (os, self')
           \<and> histories_ok (price_history (trader_data self'))"
proof (cases "buy_orders depth = [] \<or> sell_orders depth = []")
  case True
  with assms show ?thesis by (auto simp: pb_process_product_def)
next
  case False
  show ?thesis
  proof (cases "p \<in> set [''RAINFOREST_RESIN'', ''KELP'']")
    case True
    from mean_reversion_total[OF assms(1)] obtain F ph' where
      "mean_reversion (price_history (trader_data self)) p
              (real_of_int (max_key (buy_orders depth) + min_key (sell_orders depth)) / 2)
              L depth (position_get state p) = Inr (book_walk p F L depth (position_get state p), ph')"
      and "histories_ok ph'" by blast
    with True False assms(2,3) show ?thesis
      by (auto simp: pb_process_product_def Let_def)
  next
    case notmr: False
    with False assms show ?thesis
      by (auto simp: pb_process_product_def Let_def)
  qed
qed

lemma vr_loop_other:
  "vr_loop self state ps result = Inr result' \<Longrightarrow>
   \<not> startswith p ''VOLCANIC_ROCK_VOUCHER'' \<Longrightarrow> result' p = result p"
proof (induction ps arbitrary: result)
  case Nil
  then show ?case by simp
next
  case (Cons q ps)
  show ?case
  proof (cases "startswith q ''VOLCANIC_ROCK_VOUCHER''")
    case True
    with Cons.prems(1) obtain os where
      "vr_loop self state ps (if os \<noteq> [] then result(q \<mapsto> os) else result) = Inr result'"
      by (auto split: sum.splits)
    from Cons.IH[OF this Cons.prems(2)] True Cons.prems(2) show ?thesis by (auto split: if_splits)
  next
    case False
    with Cons show ?thesis by simp
  qed
qed

lemma vr_loop_notin:
  "vr_loop self state ps result = Inr result' \<Longrightarrow> p \<notin> set ps \<Longrightarrow> result' p = result p"
proof (induction ps arbitrary: result)
  case Nil
  then show ?case by simp
next
  case (Cons q ps)
  show ?case
  proof (cases "startswith q ''VOLCANIC_ROCK_VOUCHER''")
    case True
    with Cons.prems(1) obtain os where
      "vr_loop self state ps (if os \<noteq> [] then result(q \<mapsto> os) else result) = Inr result'"
      by (auto split: sum.splits)
    from Cons.IH[OF this] Cons.prems(2) show ?thesis by (auto split: if_splits)
  next
    case False
    with Cons show ?thesis by simp
  qed
qed

lemma vr_loop_voucher:
  "vr_loop self state ps result = Inr result' \<Longrightarrow> distinct ps \<Longrightarrow> p \<in> set ps \<Longrightarrow>
   startswith p ''VOLCANIC_ROCK_VOUCHER'' \<Longrightarrow>
   \<exists>os. vr_short_itm_voucher self p state = Inr os
        \<and> result' p = (if os \<noteq> [] then Some os else result p)"
proof (induction ps arbitrary: result)
  case Nil
  then show ?case by simp
next
  case (Cons q ps)
  show ?case
  proof (cases "q = p")
    case True
    with Cons.prems obtain os where v: "vr_short_itm_voucher self p state = Inr os"
      and l: "vr_loop self state ps (if os \<noteq> [] then result(p \<mapsto> os) else result) = Inr result'"
      by (auto split: sum.splits)
    from Cons.prems(2) True have "p \<notin> set ps" by simp
    from vr_loop_notin[OF l this] v show ?thesis by auto
  next
    case False
    with Cons.prems(3) have in_ps: "p \<in> set ps" by simp
    from Cons.prems(2) have dist: "distinct ps" by simp
    show ?thesis
    proof (cases "startswith q ''VOLCANIC_ROCK_VOUCHER''")
      case True
      with Cons.prems(1) obtain os where
        l: "vr_loop self state ps (if os \<noteq> [] then result(q \<mapsto> os) else result) = Inr result'"
        by (auto split: sum.splits)
      from Cons.IH[OF l dist in_ps Cons.prems(4)] False show ?thesis by (auto split: if_splits)
    next
      case notv: False
      with Cons.prems(1) have "vr_loop self state ps result = Inr result'" by simp
      from Cons.IH[OF this dist in_ps Cons.prems(4)] show ?thesis .
    qed
  qed
qed

lemma vr_loop_safe:
  "vr_loop self state ps result = Inr result' \<Longrightarrow> safe_result r3_limit state result \<Longrightarrow>
   safe_result r3_limit state result'"
proof (induction ps arbitrary: result)
  case Nil
  then show ?case by simp
next
  case (Cons q ps)
  show ?case
  proof (cases "startswith q ''VOLCANIC_ROCK_VOUCHER''")
    case True
    with Cons.prems(1) obtain os where v: "vr_short_itm_voucher self q state = Inr os"
      and l: "vr_loop self state ps (if os \<noteq> [] then result(q \<mapsto> os) else result) = Inr result'"
      by (auto split: sum.splits)
    have "safe_for r3_limit state q os"
      using voucher_within_limit[OF _ v] True
      by (simp add: safe_for_def r3_limit_def vr_max_short_def)
    with Cons.prems(2) have "safe_result r3_limit state (if os \<noteq> [] then result(q \<mapsto> os) else result)"
      by (auto simp: safe_result_def)
    from Cons.IH[OF l this] show ?thesis .
  next
    case False
    with Cons show ?thesis by simp
  qed
qed

lemma vr_loop_total:
  "list_all (\<lambda>p. startswith p ''VOLCANIC_ROCK_VOUCHER'' \<longrightarrow>
                  (\<exists>K. py_int (last (str_split CHR ''_'' p)) = Inr K)) ps \<Longrightarrow>
   \<exists>result'. vr_loop self state ps result = Inr result'"
proof (induction ps arbitrary: result)
  case Nil
  then show ?case by simp
next
  case (Cons q ps)
  show ?case
  proof (cases "startswith q ''VOLCANIC_ROCK_VOUCHER''")
    case True
    with Cons.prems obtain K where "py_int (last (str_split CHR ''_'' q)) = Inr K" by auto
    from voucher_orders[OF this, of self state]
    obtain os where "vr_short_itm_voucher self q state = Inr os" by blast
    with True Cons.IH Cons.prems show ?thesis by simp
  next
    case False
    with Cons show ?thesis by simp
  qed
qed

lemma pb_loop_facts:
  "pb_loop state ps (self, result) = Inr (self', result') \<Longrightarrow>
   vr_price self' = vr_price self
   \<and> (pb_position_limits p = None \<or> one_sided state p \<longrightarrow> result' p = result p)
   \<and> (safe_result r3_limit state result \<longrightarrow> safe_result r3_limit state result')"
proof (induction ps arbitrary: self result)
  case Nil
  then show ?case by simp
next
  case (Cons q ps)
  show ?case
  proof (cases "pb_position_limits q")
    case None
    with Cons show ?thesis by simp
  next
    case (Some L)
    with Cons.prems obtain os self1 where pp: "pb_process_product self q state = Inr (os, self1)"
      and l: "pb_loop state ps (self1, if os \<noteq> [] then result(q \<mapsto> os) else result)
                = Inr (self', result')"
      by (auto split: sum.splits)
    note ih = Cons.IH[OF l]
    from pb_process_product_cases[OF pp] have vp: "vr_price self1 = vr_price self" by blast
    have keep: "(if os \<noteq> [] then result(q \<mapsto> os) else result) p = result p"
      if "pb_position_limits p = None \<or> one_sided state p"
    proof (cases "q = p")
      case True
      with that Some have "one_sided state q" by auto
      from pb_process_product_one_sided[OF this Some] pp have "os = []" by simp
      then show ?thesis by simp
    next
      case False
      then show ?thesis by simp
    qed
    have safe: "safe_result r3_limit state (if os \<noteq> [] then result(q \<mapsto> os) else result)"
      if "safe_result r3_limit state result"
      using that pb_process_product_safe[OF pp] by (auto simp: safe_result_def)
    from ih vp keep safe show ?thesis by auto
  qed
qed

lemma pb_loop_total:
  "histories_ok (price_history (trader_data self)) \<Longrightarrow>
   list_all (\<lambda>p. map_of (order_depths state) p \<noteq> None) ps \<Longrightarrow>
   \<exists>self' result'. pb_loop state ps (self, result) = Inr (self', result')"
proof (induction ps arbitrary: self result)
  case Nil
  then show ?case by simp
next
  case (Cons q ps)
  show ?case
  proof (cases "pb_position_limits q")
    case None
    with Cons show ?thesis by simp
  next
    case (Some L)
    from Cons.prems(2) obtain depth where d: "map_of (order_depths state) q = Some depth" by auto
    from pb_process_product_total[OF Cons.prems(1) d Some] obtain os self1 where
      pp: "pb_process_product self q state = Inr (os, self1)"
      and ok: "histories_ok (price_history (trader_data self1))" by blast
    from Cons.prems(2) have rest: "list_all (\<lambda>p. map_of (order_depths state) p \<noteq> None) ps" by simp
    from Cons.IH[OF ok rest] pp Some show ?thesis by simp
  qed
qed

subsection \<open>\<^verbatim>\<open>run\<close> of ROUND-3\<close>

lemma dict_keys_distinct: "distinct (dict_keys d)"
  by (simp add: dict_keys_def)

lemma dict_keys_lookup: "p \<in> set (dict_keys d) \<longleftrightarrow> map_of d p \<noteq> None"
  by (simp add: dict_keys_def map_of_eq_None_iff)

lemma r3_run_Inr:
  assumes "r3_run self state = Inr ((result, c, b), self')"
  shows "\<exists>result1 self3.
           vr_loop (r3_enter self state) state (dict_keys (order_depths state)) Map.empty = Inr result1
         \<and> pb_loop state (dict_keys (order_depths state)) (r3_enter self state, result1)
             = Inr (self3, result)
         \<and> c = 0
         \<and> self' = self3\<lparr>trader_data := (trader_data self3)
                      \<lparr>last_timestamp := JNum (real_of_int (timestamp state))\<rparr>\<rparr>
         \<and> b = json_dumps (trader_data_json (trader_data self'))"
  using assms by (auto simp: r3_run_def r3_enter_def Let_def split: sum.splits)

lemma r3_run_total:
  assumes "vr_loop (r3_enter self state) state (dict_keys (order_depths state)) Map.empty = Inr result1"
    and "pb_loop state (dict_keys (order_depths state)) (r3_enter self state, result1) = Inr (self3, result)"
  shows "\<exists>b self'. r3_run self state = Inr ((result, 0, b), self')"
  using assms by (simp add: r3_run_def r3_enter_def Let_def)

lemma voucher_reads_vr_price:
  "vr_price a = vr_price b \<Longrightarrow> vr_short_itm_voucher a p state = vr_short_itm_voucher b p state"
  by (auto simp: vr_short_itm_voucher_def Let_def split: sum.splits)

lemma vr_update_no_data:
  "\<not> two_sided state ''VOLCANIC_ROCK'' \<Longrightarrow> vr_update_market_data self state = self"
  by (auto simp: vr_update_market_data_def two_sided_def split: option.splits)

lemma r3_enter_no_data:
  "\<not> two_sided state ''VOLCANIC_ROCK'' \<Longrightarrow> vr_price (r3_enter self state) = vr_price self"
  by (simp add: r3_enter_def vr_update_no_data)

lemma voucher_not_pb: "startswith p ''VOLCANIC_ROCK_VOUCHER'' \<Longrightarrow> pb_position_limits p = None"
  using pb_limit_not_voucher[of p] by (cases "pb_position_limits p") auto

lemma r3_run_voucher:
  assumes run: "r3_run self state = Inr ((result, c, b), self')"
    and p: "p \<in> set (vouchers state)"
  shows "vr_short_itm_voucher (r3_enter self state) p state = Inr (emitted result p)"
proof -
  from p have pin: "p \<in> set (dict_keys (order_depths state))"
    and pv: "startswith p ''VOLCANIC_ROCK_VOUCHER''" by (simp_all add: vouchers_def)
  from r3_run_Inr[OF run] obtain result1 self3 where
    vl: "vr_loop (r3_enter self state) state (dict_keys (order_depths state)) Map.empty = Inr result1"
    and pl: "pb_loop state (dict_keys (order_depths state)) (r3_enter self state, result1)
             = Inr (self3, result)" by blast
  from vr_loop_voucher[OF vl dict_keys_distinct pin pv] obtain os where
    os: "vr_short_itm_voucher (r3_enter self state) p state = Inr os"
    and r1: "result1 p = (if os \<noteq> [] then Some os else None)" by auto
  from pb_loop_facts[OF pl, of p] voucher_not_pb[OF pv] have "result p = result1 p" by simp
  with r1 have "emitted result p = os" by (simp add: emitted_def)
  with os show ?thesis by simp
qed

lemma voucher_returns_strike:
  "vr_short_itm_voucher self p state = Inr os \<Longrightarrow> \<exists>K. strike p = Inr K"
  by (cases "strike p") (auto simp: vr_short_itm_voucher_def strike_def)

lemma r3_run_voucher_orders:
  assumes run: "r3_run self state = Inr ((result, c, b), self')"
    and p: "map_of (order_depths state) p \<noteq> None" and v: "startswith p ''VOLCANIC_ROCK_VOUCHER''"
  shows "\<exists>K. strike p = Inr K \<and> emitted result p =
           (if vr_price (r3_enter self state) \<le> real_of_int K \<or> 200 + position_get state p \<le> 0
            then []
            else [\<lparr>symbol = p,
                   price = \<lfloor>(vr_price (r3_enter self state) - real_of_int K) * 0.95\<rfloor>,
                   quantity = - min 10 (200 + position_get state p)\<rparr>])"
proof -
  from p v have "p \<in> set (vouchers state)" by (simp add: vouchers_def dict_keys_lookup)
  from r3_run_voucher[OF run this]
  have os: "vr_short_itm_voucher (r3_enter self state) p state = Inr (emitted result p)" .
  from voucher_returns_strike[OF os] obtain K where K: "strike p = Inr K" by blast
  then have "py_int (last (str_split CHR ''_'' p)) = Inr K" by (simp add: strike_def)
  from voucher_orders[OF this, of "r3_enter self state" state] os K show ?thesis by simp
qed

lemma strikes_parse_strike:
  "strikes_parse state \<Longrightarrow> p \<in> set (vouchers state) \<Longrightarrow> \<exists>K. strike p = Inr K"
  by (cases "strike p") (auto simp: strikes_parse_def list_all_iff)

lemma r3_first_tick_total:
  assumes "strikes_parse state" and "traderData state = Blob_empty"
  shows "\<exists>result b self'. r3_run r3_init state = Inr ((result, 0, b), self')"
proof -
  have "\<exists>K. py_int (last (str_split CHR ''_'' p)) = Inr K"
    if "p \<in> set (dict_keys (order_depths state))" "startswith p ''VOLCANIC_ROCK_VOUCHER''" for p
  proof -
    from that have "p \<in> set (vouchers state)" by (simp add: vouchers_def)
    from strikes_parse_strike[OF assms(1) this] show ?thesis by (simp add: strike_def)
  qed
  then have "list_all (\<lambda>p. startswith p ''VOLCANIC_ROCK_VOUCHER'' \<longrightarrow>
                  (\<exists>K. py_int (last (str_split CHR ''_'' p)) = Inr K)) (dict_keys (order_depths state))"
    by (simp add: list_all_iff)
  from vr_loop_total[OF this] obtain result1 where
    vl: "vr_loop (r3_enter r3_init state) state (dict_keys (order_depths state)) Map.empty = Inr result1"
    by blast
  have "price_history (trader_data (r3_enter r3_init state)) = []"
    using assms(2)
    by (auto simp: r3_enter_def restore_def r3_init_def vr_update_market_data_def Let_def
        split: option.splits)
  then have ok: "histories_ok (price_history (trader_data (r3_enter r3_init state)))"
    by (simp add: histories_ok_def)
  have "list_all (\<lambda>p. map_of (order_depths state) p \<noteq> None) (dict_keys (order_depths state))"
    by (simp add: list_all_iff dict_keys_lookup)
  from pb_loop_total[OF ok this] obtain self3 result where
    "pb_loop state (dict_keys (order_depths state)) (r3_enter r3_init state, result1) = Inr (self3, result)"
    by blast
  from r3_run_total[OF vl this] show ?thesis by blast
qed

text \<open>
  Claim C10. On a tick whose snapshot has no VOLCANIC_ROCK book, or one with an empty bid
  or ask side, \<^verbatim>\<open>vr_update_market_data\<close> leaves \<^verbatim>\<open>self.vr_price\<close> as it is; when \<^verbatim>\<open>run\<close>
  returns, the trader still has that price and the orders of every voucher of the
  snapshot are those \<^verbatim>\<open>vr_short_itm_voucher\<close> computes from it. On a first tick (a fresh
  trader, so the price is 10500; an empty blob; no positions) with no underlying market
  data, \<^verbatim>\<open>run\<close> returns and every voucher whose strike is below 10500 has one short order
  in the output: 10 units at \<open>floor((10500 - K) * 0.95)\<close>.
\<close>

theorem stale_underlying_fallback:
  assumes "\<not> two_sided state ''VOLCANIC_ROCK''"
  shows "vr_price (vr_update_market_data self state) = vr_price self
    \<and> (r3_run self state = Inr ((result, c, b), self') \<longrightarrow>
           vr_price self' = vr_price self
           \<and> list_all (\<lambda>p. vr_short_itm_voucher self p state = Inr (emitted result p)) (vouchers state))
    \<and> (strikes_parse state \<and> traderData state = Blob_empty \<and> position state = Map.empty \<longrightarrow>
           (\<exists>result1 b1 self1. r3_run r3_init state = Inr ((result1, 0, b1), self1)
              \<and> vr_price self1 = 10500
              \<and> list_all (\<lambda>p. case strike p of
                                Inl e \<Rightarrow> False
                              | Inr K \<Rightarrow>
                                  K < 10500 \<longrightarrow>
                                  result1 p = Some [\<lparr>symbol = p,
                                      price = \<lfloor>(10500 - real_of_int K) * 0.95\<rfloor>, quantity = - 10\<rparr>])
                   (vouchers state)))"
proof (intro conjI)
  show "vr_price (vr_update_market_data self state) = vr_price self"
    using assms by (simp add: vr_update_no_data)
  have gen: "vr_price self' = vr_price self
           \<and> list_all (\<lambda>p. vr_short_itm_voucher self p state = Inr (emitted result p)) (vouchers state)"
    if run: "r3_run self state = Inr ((result, c, b), self')" for self result c b self'
  proof -
    from r3_run_Inr[OF run] obtain result1 self3 where
      pl: "pb_loop state (dict_keys (order_depths state)) (r3_enter self state, result1)
             = Inr (self3, result)"
      and s: "self' = self3\<lparr>trader_data := (trader_data self3)
                      \<lparr>last_timestamp := JNum (real_of_int (timestamp state))\<rparr>\<rparr>" by blast
    from pb_loop_facts[OF pl] have "vr_price self3 = vr_price (r3_enter self state)" by blast
    with s r3_enter_no_data[OF assms, of self] have v: "vr_price self' = vr_price self" by simp
    have "vr_short_itm_voucher self p state = Inr (emitted result p)" if "p \<in> set (vouchers state)" for p
      using r3_run_voucher[OF run that]
        voucher_reads_vr_price[OF r3_enter_no_data[OF assms, of self], of p state] by simp
    with v show ?thesis by (simp add: list_all_iff)
  qed
  then show "r3_run self state = Inr ((result, c, b), self') \<longrightarrow>
           vr_price self' = vr_price self
           \<and> list_all (\<lambda>p. vr_short_itm_voucher self p state = Inr (emitted result p)) (vouchers state)"
    by blast
  show "strikes_parse state \<and> traderData state = Blob_empty \<and> position state = Map.empty \<longrightarrow>
           (\<exists>result1 b1 self1. r3_run r3_init state = Inr ((result1, 0, b1), self1)
              \<and> vr_price self1 = 10500
              \<and> list_all (\<lambda>p. case strike p of
                                Inl e \<Rightarrow> False
                              | Inr K \<Rightarrow>
                                  K < 10500 \<longrightarrow>
                                  result1 p = Some [\<lparr>symbol = p,
                                      price = \<lfloor>(10500 - real_of_int K) * 0.95\<rfloor>, quantity = - 10\<rparr>])
                   (vouchers state))"
  proof (intro impI)
    assume h: "strikes_parse state \<and> traderData state = Blob_empty \<and> position state = Map.empty"
    then have sp: "strikes_parse state" and te: "traderData state = Blob_empty"
      and pe: "position state = Map.empty" by simp_all
    from r3_first_tick_total[OF sp te] obtain result1 b1 self1 where
      run: "r3_run r3_init state = Inr ((result1, 0, b1), self1)" by blast
    from gen[OF run] have v: "vr_price self1 = 10500"
      and all: "list_all (\<lambda>p. vr_short_itm_voucher r3_init p state = Inr (emitted result1 p)) (vouchers state)"
      by (simp_all add: r3_init_def)
    have "case strike p of Inl e \<Rightarrow> False
          | Inr K \<Rightarrow> K < 10500 \<longrightarrow>
              result1 p = Some [\<lparr>symbol = p, price = \<lfloor>(10500 - real_of_int K) * 0.95\<rfloor>, quantity = - 10\<rparr>]"
      if pin: "p \<in> set (vouchers state)" for p
    proof -
      from strikes_parse_strike[OF sp pin] obtain K where k: "strike p = Inr K" by blast
      from all pin have e: "vr_short_itm_voucher r3_init p state = Inr (emitted result1 p)"
        by (simp add: list_all_iff)
      have pos: "position_get state p = 0" using pe by (simp add: position_get_def)
      from voucher_orders[OF k[unfolded strike_def], of r3_init state] e pos
      have "K < 10500 \<Longrightarrow> emitted result1 p =
           [\<lparr>symbol = p, price = \<lfloor>(10500 - real_of_int K) * 0.95\<rfloor>, quantity = - 10\<rparr>]"
        by (simp add: r3_init_def)
      then have "K < 10500 \<Longrightarrow> result1 p =
           Some [\<lparr>symbol = p, price = \<lfloor>(10500 - real_of_int K) * 0.95\<rfloor>, quantity = - 10\<rparr>]"
        by (auto simp: emitted_def split: option.splits)
      with k show ?thesis by simp
    qed
    with run v show "\<exists>result1 b1 self1. r3_run r3_init state = Inr ((result1, 0, b1), self1)
              \<and> vr_price self1 = 10500
              \<and> list_all (\<lambda>p. case strike p of
                                Inl e \<Rightarrow> False
                              | Inr K \<Rightarrow>
                                  K < 10500 \<longrightarrow>
                                  result1 p = Some [\<lparr>symbol = p,
                                      price = \<lfloor>(10500 - real_of_int K) * 0.95\<rfloor>, quantity = - 10\<rparr>])
                   (vouchers state)"
      by (auto simp: list_all_iff)
  qed
qed

text \<open>
  A first tick with a one-sided VOLCANIC_ROCK book and the vouchers 10250 and 10500: the
  first is sold at \<open>floor(250 * 0.95) = 237\<close>.
\<close>

theorem stale_underlying_fallback_witness:
  "\<exists>result1 b1 self1.
     r3_run r3_init
       \<lparr>traderData = Blob_empty, timestamp = 0,
        order_depths =
          [(''VOLCANIC_ROCK'', \<lparr>buy_orders = [(10490, 7)], sell_orders = []\<rparr>),
           (''VOLCANIC_ROCK_VOUCHER_10250'', \<lparr>buy_orders = [(260, 4)], sell_orders = [(262, - 4)]\<rparr>),
           (''VOLCANIC_ROCK_VOUCHER_10500'', \<lparr>buy_orders = [(99, 4)], sell_orders = [(101, - 4)]\<rparr>)],
        position = Map.empty\<rparr> = Inr ((result1, 0, b1), self1)
     \<and> vr_price self1 = 10500
     \<and> result1 ''VOLCANIC_ROCK_VOUCHER_10250''
         = Some [\<lparr>symbol = ''VOLCANIC_ROCK_VOUCHER_10250'', price = 237, quantity = - 10\<rparr>]"
proof -
  let ?s = "\<lparr>traderData = Blob_empty, timestamp = 0,
        order_depths =
          [(''VOLCANIC_ROCK'', \<lparr>buy_orders = [(10490, 7)], sell_orders = []\<rparr>),
           (''VOLCANIC_ROCK_VOUCHER_10250'', \<lparr>buy_orders = [(260, 4)], sell_orders = [(262, - 4)]\<rparr>),
           (''VOLCANIC_ROCK_VOUCHER_10500'', \<lparr>buy_orders = [(99, 4)], sell_orders = [(101, - 4)]\<rparr>)],
        position = Map.empty\<rparr>"
  have nd: "\<not> two_sided ?s ''VOLCANIC_ROCK''" by (simp add: two_sided_def)
  have v: "vouchers ?s = [''VOLCANIC_ROCK_VOUCHER_10250'', ''VOLCANIC_ROCK_VOUCHER_10500'']"
    by (simp add: vouchers_def dict_keys_def startswith_def)
  have k1: "strike ''VOLCANIC_ROCK_VOUCHER_10250'' = Inr 10250"
    by (simp add: strike_def py_int_def str_strip_def is_space_def unsigned_int_def digit_val_def)
  have k2: "strike ''VOLCANIC_ROCK_VOUCHER_10500'' = Inr 10500"
    by (simp add: strike_def py_int_def str_strip_def is_space_def unsigned_int_def digit_val_def)
  have sp: "strikes_parse ?s" by (simp add: strikes_parse_def v k1 k2)
  from stale_underlying_fallback[OF nd, THEN conjunct2, THEN conjunct2] sp
  show ?thesis by (simp add: v k1 k2)
qed

subsection \<open>The loop of ROUND-2\<close>

lemma r2_product_skip:
  "POSITION_LIMITS q = None \<Longrightarrow> r2_product state q acc = Inr acc"
  by (cases acc) (simp add: r2_product_def)

lemma r2_product_one_sided:
  assumes "one_sided state q" and "POSITION_LIMITS q = Some L"
  shows "r2_product state q (self, result) = Inr (self, result(q \<mapsto> []))"
  using assms by (auto simp: r2_product_def one_sided_def Let_def split: option.splits)

lemma r2_product_cases:
  assumes "r2_product state q (self, result) = Inr (self1, result1)"
    and "POSITION_LIMITS q = Some L"
  shows "\<exists>depth os. map_of (order_depths state) q = Some depth
           \<and> result1 = result(q \<mapsto> os)
           \<and> dynamic_params self1 = dynamic_params self
           \<and> spread_history (trader_data_r2 self1) = spread_history (trader_data_r2 self)
           \<and> (os = [] \<or> (\<exists>F. os = book_walk q F L depth (position_get state q))
                \<or> (\<exists>z b a. os = threshold_orders q z L (position_get state q) b a))"
proof -
  from assms obtain depth where d: "map_of (order_depths state) q = Some depth"
    by (auto simp: r2_product_def split: option.splits)
  show ?thesis
  proof (cases "buy_orders depth = [] \<or> sell_orders depth = []")
    case True
    with assms d show ?thesis by (auto simp: r2_product_def)
  next
    case False
    show ?thesis
    proof (cases "q \<in> set [''RAINFOREST_RESIN'', ''KELP'']")
      case True
      with assms d False obtain os ph where
        m: "mean_reversion (price_history (trader_data_r2 self)) q
              (real_of_int (max_key (buy_orders depth) + min_key (sell_orders depth)) / 2)
              L depth (position_get state q) = Inr (os, ph)"
        and s: "self1 = self\<lparr>trader_data_r2 := (trader_data_r2 self)\<lparr>price_history := ph\<rparr>\<rparr>"
        and r: "result1 = result(q \<mapsto> os)"
        by (auto simp: r2_product_def Let_def split: sum.splits)
      from mean_reversion_orders[OF m] s r d show ?thesis by auto
    next
      case notmr: False
      show ?thesis
      proof (cases "q = ''CROISSANTS''")
        case True
        let ?mid = "real_of_int (max_key (buy_orders depth) + min_key (sell_orders depth)) / 2"
        let ?h = "update_croissant_history (croissant_history self) ?mid"
        from True assms d False notmr
        have "result1 = result(q \<mapsto> threshold_orders q (calculate_z_score ?h ?mid) L
                 (position_get state q) (max_key (buy_orders depth)) (min_key (sell_orders depth)))"
          and "dynamic_params self1 = dynamic_params self"
          and "spread_history (trader_data_r2 self1) = spread_history (trader_data_r2 self)"
          by (auto simp: r2_product_def Let_def)
        with d show ?thesis by blast
      next
        case False
        with assms d \<open>\<not> (buy_orders depth = [] \<or> sell_orders depth = [])\<close> notmr show ?thesis
          by (auto simp: r2_product_def Let_def)
      qed
    qed
  qed
qed

lemma r2_product_safe:
  assumes "r2_product state q (self, result) = Inr (self1, result1)"
    and "safe_result POSITION_LIMITS state result"
  shows "safe_result POSITION_LIMITS state result1"
proof (cases "POSITION_LIMITS q")
  case None
  with assms r2_product_skip[OF None, of state "(self, result)"] show ?thesis by simp
next
  case (Some L)
  from r2_product_cases[OF assms(1) Some] obtain depth os where
    d: "map_of (order_depths state) q = Some depth" and r: "result1 = result(q \<mapsto> os)"
    and c: "os = [] \<or> (\<exists>F. os = book_walk q F L depth (position_get state q))
                \<or> (\<exists>z b a. os = threshold_orders q z L (position_get state q) b a)"
    by blast
  have "within_limit L (position_get state q) os"
    if "\<bar>position_get state q\<bar> \<le> L" and "signs_ok_at state q"
  proof -
    from that(2) d have "signs_ok depth" by (simp add: signs_ok_at_def)
    with c that(1) show ?thesis
      by (auto intro: book_walk_within_limit threshold_orders_within_limit)
  qed
  then have "safe_for POSITION_LIMITS state q os" by (simp add: safe_for_def Some)
  with assms(2) r show ?thesis by (auto simp: safe_result_def)
qed

lemma r2_loop_facts:
  "r2_loop state ps (self, result) = Inr (self', result') \<Longrightarrow>
   dynamic_params self' = dynamic_params self
   \<and> spread_history (trader_data_r2 self') = spread_history (trader_data_r2 self)
   \<and> (safe_result POSITION_LIMITS state result \<longrightarrow> safe_result POSITION_LIMITS state result')
   \<and> (one_sided state p \<and> POSITION_LIMITS p \<noteq> None \<longrightarrow>
        result' p = (if p \<in> set ps then Some [] else result p))"
proof (induction ps arbitrary: self result)
  case Nil
  then show ?case by simp
next
  case (Cons q ps)
  from Cons.prems obtain self1 result1 where
    st: "r2_product state q (self, result) = Inr (self1, result1)"
    and l: "r2_loop state ps (self1, result1) = Inr (self', result')"
    by (auto split: sum.splits)
  note ih = Cons.IH[OF l]
  have safe: "safe_result POSITION_LIMITS state result \<Longrightarrow> safe_result POSITION_LIMITS state result1"
    by (rule r2_product_safe[OF st])
  show ?case
  proof (cases "POSITION_LIMITS q")
    case None
    with st r2_product_skip[OF None, of state "(self, result)"]
    have "self1 = self" "result1 = result" by simp_all
    with ih None show ?thesis by auto
  next
    case (Some L)
    from r2_product_cases[OF st Some] obtain os where
      r: "result1 = result(q \<mapsto> os)"
      and dp: "dynamic_params self1 = dynamic_params self"
      and sh: "spread_history (trader_data_r2 self1) = spread_history (trader_data_r2 self)"
      by blast
    have one: "result1 p = (if p = q then Some [] else result p)"
      if "one_sided state p" "POSITION_LIMITS p \<noteq> None"
    proof (cases "p = q")
      case True
      with that Some r2_product_one_sided[of state q L self result] st show ?thesis by simp
    next
      case False
      with r show ?thesis by simp
    qed
    from ih dp sh safe one show ?thesis by auto
  qed
qed

lemma r2_run_Inr:
  assumes "r2_run self state = Inr ((result, c, b), self')"
  shows "\<exists>self2.
           r2_loop state (dict_keys (order_depths state))
             (self\<lparr>trader_data_r2 := restore restore_key2 trader_data_keys2 (trader_data_r2 self)
                                        (traderData state)\<rparr>, Map.empty) = Inr (self2, result)
         \<and> c = 0
         \<and> self' = self2\<lparr>trader_data_r2 := (trader_data_r2 self2)
                      \<lparr>last_timestamp := JNum (real_of_int (timestamp state))\<rparr>\<rparr>
         \<and> b = json_dumps (trader_data2_json (trader_data_r2 self'))"
  using assms by (auto simp: r2_run_def Let_def split: sum.splits)

subsection \<open>The loop of ROUND-1\<close>

lemma r1_product_cases:
  assumes "r1_product state q (ph0, result) = Inr (ph, result1)"
  shows "\<exists>depth L os. map_of (order_depths state) q = Some depth \<and> position_limits q = Some L
           \<and> result1 = result(q \<mapsto> os)
           \<and> (os = [] \<or> (\<exists>F. os = book_walk q F L depth (position_get state q)))"
proof -
  from assms obtain depth where d: "map_of (order_depths state) q = Some depth"
    by (auto simp: r1_product_def split: option.splits)
  from assms d obtain L where l: "position_limits q = Some L"
    by (auto simp: r1_product_def split: option.splits)
  from assms d l obtain F where
    r: "result1 = result(q \<mapsto> (if q = ''SQUID_INK'' then []
                                 else book_walk q F L depth (position_get state q)))"
    by (auto simp: r1_product_def Let_def split: sum.splits if_splits)
  show ?thesis
  proof (cases "q = ''SQUID_INK''")
    case True
    with r d l show ?thesis by auto
  next
    case False
    with r have "result1 = result(q \<mapsto> book_walk q F L depth (position_get state q))" by simp
    with d l show ?thesis by blast
  qed
qed

lemma r1_product_safe:
  assumes "r1_product state q (ph0, result) = Inr (ph, result1)"
    and "safe_result position_limits state result"
  shows "safe_result position_limits state result1"
proof -
  from r1_product_cases[OF assms(1)] obtain depth L os where
    d: "map_of (order_depths state) q = Some depth" and l: "position_limits q = Some L"
    and r: "result1 = result(q \<mapsto> os)"
    and c: "os = [] \<or> (\<exists>F. os = book_walk q F L depth (position_get state q))"
    by blast
  have "within_limit L (position_get state q) os"
    if "\<bar>position_get state q\<bar> \<le> L" and "signs_ok_at state q"
  proof -
    from that(2) d have "signs_ok depth" by (simp add: signs_ok_at_def)
    with c that(1) show ?thesis by (auto intro: book_walk_within_limit)
  qed
  then have "safe_for position_limits state q os" by (simp add: safe_for_def l)
  with assms(2) r show ?thesis by (auto simp: safe_result_def)
qed

lemma r1_loop_facts:
  "r1_loop state ps (ph0, result) = Inr (ph, result') \<Longrightarrow>
   (safe_result position_limits state result \<longrightarrow> safe_result position_limits state result')
   \<and> (p \<in> set ps \<longrightarrow> result' p \<noteq> None)
   \<and> (result p \<noteq> None \<longrightarrow> result' p \<noteq> None)"
proof (induction ps arbitrary: ph0 result)
  case Nil
  then show ?case by simp
next
  case (Cons q ps)
  from Cons.prems obtain ph1 result1 where
    st: "r1_product state q (ph0, result) = Inr (ph1, result1)"
    and l: "r1_loop state ps (ph1, result1) = Inr (ph, result')"
    by (auto split: sum.splits)
  note ih = Cons.IH[OF l]
  from r1_product_cases[OF st] obtain os where r: "result1 = result(q \<mapsto> os)" by blast
  from r have rq: "result1 q \<noteq> None" and rp: "result p \<noteq> None \<Longrightarrow> result1 p \<noteq> None"
    by simp_all
  have s1: "safe_result position_limits state result \<Longrightarrow> safe_result position_limits state result1"
    by (rule r1_product_safe[OF st])
  from ih s1 rq rp show ?case by (cases "p = q") auto
qed

lemma r1_run_Inr:
  assumes "r1_run state = Inr (result, c, b)"
  shows "\<exists>ph0 ph. r1_load (traderData state) = Inr ph0
         \<and> r1_loop state (dict_keys (order_depths state)) (ph0, Map.empty) = Inr (ph, result)
         \<and> c = 0 \<and> b = json_dumps ph"
  using assms by (auto simp: r1_run_def Let_def split: sum.splits)

lemma r1_product_one_sided:
  assumes "map_of (order_depths state) q = Some depth"
    and "buy_orders depth = [] \<or> sell_orders depth = []"
    and "position_limits q = Some L" and "map_of d (JStr q) = None"
  shows "r1_product state q (JObj d, result) =
     Inr (JObj d, result(q \<mapsto>
            (if q = ''SQUID_INK'' then []
             else book_walk q (if q = ''RAINFOREST_RESIN'' then 10000 else 1000) L depth
                    (position_get state q))))"
  using assms
  by (auto simp: r1_product_def r1_mid_price_def r1_history_def r1_fair_price_def average_def
      Let_def)

lemma r1_product_stored_history:
  assumes "map_of (order_depths state) q = Some depth"
    and "buy_orders depth = [] \<or> sell_orders depth = []"
    and "position_limits q = Some L" and "map_of d (JStr q) = Some h"
  shows "r1_product state q (JObj d, result) =
     (case r1_fair_price h of
        Inl e \<Rightarrow> Inl e
      | Inr F \<Rightarrow> Inr (JObj d, result(q \<mapsto>
            (if q = ''SQUID_INK'' then []
             else book_walk q F L depth (position_get state q)))))"
  using assms
  by (auto simp: r1_product_def r1_mid_price_def r1_history_def Let_def split: sum.splits)

lemma r1_fair_price_list: "r1_fair_price (JArr h) = average h"
  by (simp add: r1_fair_price_def)

subsection \<open>Position-limit safety of a tick\<close>

lemma safe_result_empty: "safe_result limits state Map.empty"
  by (simp add: safe_result_def)

lemma safe_result_emitted:
  assumes "safe_result limits state result" and "limits p = Some L"
    and "\<bar>position_get state p\<bar> \<le> L" and "signs_ok_at state p"
  shows "within_limit L (position_get state p) (emitted result p)"
proof (cases "result p")
  case None
  then show ?thesis by (simp add: emitted_def)
next
  case (Some os)
  with assms(1) have "safe_for limits state p os" by (simp add: safe_result_def)
  with assms(2-4) Some show ?thesis by (simp add: safe_for_def emitted_def)
qed

lemma r1_run_safe: "r1_run state = Inr (result, c, b) \<Longrightarrow> safe_result position_limits state result"
proof -
  assume "r1_run state = Inr (result, c, b)"
  from r1_run_Inr[OF this] obtain ph0 ph where
    "r1_loop state (dict_keys (order_depths state)) (ph0, Map.empty) = Inr (ph, result)" by blast
  from r1_loop_facts[OF this] safe_result_empty show ?thesis by blast
qed

lemma r2_run_safe:
  "r2_run self state = Inr ((result, c, b), self') \<Longrightarrow> safe_result POSITION_LIMITS state result"
proof -
  assume "r2_run self state = Inr ((result, c, b), self')"
  from r2_run_Inr[OF this] obtain self1 self2 where
    "r2_loop state (dict_keys (order_depths state)) (self1, Map.empty) = Inr (self2, result)" by blast
  from r2_loop_facts[OF this] safe_result_empty show ?thesis by blast
qed

lemma r3_run_safe:
  "r3_run self state = Inr ((result, c, b), self') \<Longrightarrow> safe_result r3_limit state result"
proof -
  assume "r3_run self state = Inr ((result, c, b), self')"
  from r3_run_Inr[OF this] obtain result1 self3 where
    vl: "vr_loop (r3_enter self state) state (dict_keys (order_depths state)) Map.empty = Inr result1"
    and pl: "pb_loop state (dict_keys (order_depths state)) (r3_enter self state, result1)
             = Inr (self3, result)" by blast
  from vr_loop_safe[OF vl safe_result_empty] pb_loop_facts[OF pl] show ?thesis by blast
qed

text \<open>
  Claim C1, as stated, at a book with a positive ask volume. ROUND-1, KELP (limit 50) at
  position 0, a stored history of four prices 1000, bids \<^verbatim>\<open>{890: 1}\<close> and asks
  \<^verbatim>\<open>{900: 100}\<close>: the fair price is 979, the ask lies below it, the code computes
  \<^verbatim>\<open>min(-100, 50) = -100\<close> and emits a sale of 100, which takes the position to -100.
\<close>

theorem position_limit_counterexample:
  "r1_run \<lparr>traderData = Blob_json (JObj [(JStr ''KELP'', JArr [JNum 1000, JNum 1000, JNum 1000, JNum 1000])]),
           timestamp = 0,
           order_depths = [(''KELP'', \<lparr>buy_orders = [(890, 1)], sell_orders = [(900, 100)]\<rparr>)],
           position = Map.empty\<rparr>
     = Inr ([''KELP'' \<mapsto> [\<lparr>symbol = ''KELP'', price = 900, quantity = - 100\<rparr>]], 0,
            Blob_json (JObj [(JStr ''KELP'',
               JArr [JNum 1000, JNum 1000, JNum 1000, JNum 1000, JNum 895])]))
   \<and> position_limits ''KELP'' = Some 50
   \<and> \<not> within_limit 50 0 [\<lparr>symbol = ''KELP'', price = 900, quantity = - 100\<rparr>]"
  by (simp add: py_defs strategy_defs r1_defs Let_def)

text \<open>
  Claim C1, amended. For each of the three engines, every product with a configured
  position limit \<open>L\<close> (in ROUND-3: \<^verbatim>\<open>vr_max_short\<close> for a voucher), every starting position
  \<open>p\<close> with \<open>|p| \<le> L\<close> and every snapshot in which the product's book follows the sign
  convention (no positive ask volume, no negative bid volume): the orders a tick emits for
  the product, applied in their order to \<open>p\<close>, keep the running position inside \<open>[-L, L]\<close>
  after every order. This covers the book walk (buying and selling), the z-score threshold
  orders and the intrinsic-value short. ROUND-2 is read with its line 150
  as the comment it was meant to be.
\<close>

theorem position_limit_safety:
  assumes "signs_ok_at state product" and "\<bar>position_get state product\<bar> \<le> L"
  shows "(r1_run state = Inr (result1, c1, b1) \<and> position_limits product = Some L \<longrightarrow>
            within_limit L (position_get state product) (emitted result1 product))
       \<and> (r2_run self2 state = Inr ((result2, c2, b2), self2') \<and> POSITION_LIMITS product = Some L \<longrightarrow>
            within_limit L (position_get state product) (emitted result2 product))
       \<and> (r3_run self3 state = Inr ((result3, c3, b3), self3') \<and> r3_limit product = Some L \<longrightarrow>
            within_limit L (position_get state product) (emitted result3 product))"
  using assms
  by (auto dest!: r1_run_safe r2_run_safe r3_run_safe intro: safe_result_emitted)

text \<open>
  The tick of the counterexample with the ask volume written as the exchange writes it,
  \<^verbatim>\<open>{900: -100}\<close>: ROUND-1 buys 50, up to the limit.
\<close>

theorem position_limit_safety_witness:
  "\<exists>result b.
     r1_run \<lparr>traderData = Blob_json (JObj [(JStr ''KELP'', JArr [JNum 1000, JNum 1000, JNum 1000, JNum 1000])]),
           timestamp = 0,
           order_depths = [(''KELP'', \<lparr>buy_orders = [(890, 1)], sell_orders = [(900, - 100)]\<rparr>)],
           position = Map.empty\<rparr> = Inr (result, 0, b)
   \<and> emitted result ''KELP'' = [\<lparr>symbol = ''KELP'', price = 900, quantity = 50\<rparr>]
   \<and> within_limit 50 0 (emitted result ''KELP'')"
proof -
  let ?s = "\<lparr>traderData = Blob_json (JObj [(JStr ''KELP'', JArr [JNum 1000, JNum 1000, JNum 1000, JNum 1000])]),
           timestamp = 0,
           order_depths = [(''KELP'', \<lparr>buy_orders = [(890, 1)], sell_orders = [(900, - 100)]\<rparr>)],
           position = Map.empty\<rparr>"
  let ?r = "[''KELP'' \<mapsto> [\<lparr>symbol = ''KELP'', price = 900, quantity = 50\<rparr>]]"
  let ?b = "Blob_json (JObj [(JStr ''KELP'',
               JArr [JNum 1000, JNum 1000, JNum 1000, JNum 1000, JNum 895])])"
  have run: "r1_run ?s = Inr (?r, 0, ?b)"
    by (simp add: py_defs strategy_defs r1_defs Let_def)
  have signs: "signs_ok_at ?s ''KELP''" by (simp add: signs_ok_at_def signs_ok_def)
  have pos: "\<bar>position_get ?s ''KELP''\<bar> \<le> 50" by (simp add: position_get_def)
  have lim: "position_limits ''KELP'' = Some 50" by (simp add: position_limits_def)
  from position_limit_safety[OF signs pos, THEN conjunct1, of ?r 0 ?b] run lim
  have "within_limit 50 (position_get ?s ''KELP'') (emitted ?r ''KELP'')" by simp
  then have "within_limit 50 0 (emitted ?r ''KELP'')" by (simp add: position_get_def)
  moreover have "emitted ?r ''KELP'' = [\<lparr>symbol = ''KELP'', price = 900, quantity = 50\<rparr>]"
    by (simp add: emitted_def)
  ultimately show ?thesis using run by blast
qed

subsection \<open>Missing market data\<close>

lemma one_sided_key: "one_sided state p \<Longrightarrow> p \<in> set (dict_keys (order_depths state))"
  by (auto simp: one_sided_def dict_keys_lookup split: option.splits)

lemma r2_run_one_sided:
  assumes "r2_run self state = Inr ((result, c, b), self')"
    and "one_sided state p" and "POSITION_LIMITS p \<noteq> None"
  shows "result p = Some []"
proof -
  from r2_run_Inr[OF assms(1)] obtain self1 self2 where
    "r2_loop state (dict_keys (order_depths state)) (self1, Map.empty) = Inr (self2, result)" by blast
  from r2_loop_facts[OF this, of p] assms(2,3) one_sided_key[OF assms(2)] show ?thesis by simp
qed

lemma r3_run_one_sided:
  assumes "r3_run self state = Inr ((result, c, b), self')"
    and "one_sided state p" and "pb_position_limits p \<noteq> None"
  shows "result p = None"
proof -
  from r3_run_Inr[OF assms(1)] obtain result1 self3 where
    vl: "vr_loop (r3_enter self state) state (dict_keys (order_depths state)) Map.empty = Inr result1"
    and pl: "pb_loop state (dict_keys (order_depths state)) (r3_enter self state, result1)
             = Inr (self3, result)" by blast
  from assms(3) obtain L where "pb_position_limits p = Some L" by auto
  from vr_loop_other[OF vl pb_limit_not_voucher[OF this]] have "result1 p = None" by simp
  with pb_loop_facts[OF pl, of p] assms(2) show ?thesis by simp
qed

lemma r1_run_listed:
  assumes "r1_run state = Inr (result, c, b)" and "p \<in> set (dict_keys (order_depths state))"
  shows "result p \<noteq> None"
proof -
  from r1_run_Inr[OF assms(1)] obtain ph0 ph where
    "r1_loop state (dict_keys (order_depths state)) (ph0, Map.empty) = Inr (ph, result)" by blast
  from r1_loop_facts[OF this, of p] assms(2) show ?thesis by simp
qed

text \<open>
  Claim C4, as stated, on a first tick with the only book KELP, asks \<^verbatim>\<open>{900: -5}\<close> and no
  bids. ROUND-1 takes the fallback fair price 1000 and buys the ask: the product has an
  order. ROUND-3 emits nothing and leaves KELP out of the output mapping: the product does
  not appear with an empty list.
\<close>

theorem missing_market_data_counterexample:
  "r1_run \<lparr>traderData = Blob_empty, timestamp = 0,
           order_depths = [(''KELP'', \<lparr>buy_orders = [], sell_orders = [(900, - 5)]\<rparr>)],
           position = Map.empty\<rparr>
     = Inr ([''KELP'' \<mapsto> [\<lparr>symbol = ''KELP'', price = 900, quantity = 5\<rparr>]], 0, Blob_json (JObj []))
   \<and> r3_run r3_init \<lparr>traderData = Blob_empty, timestamp = 0,
           order_depths = [(''KELP'', \<lparr>buy_orders = [], sell_orders = [(900, - 5)]\<rparr>)],
           position = Map.empty\<rparr>
     = Inr ((Map.empty, 0, json_dumps (trader_data_json (trader_data r3_init))), r3_init)"
  by (simp add: py_defs strategy_defs r1_defs r3_defs Let_def)

text \<open>
  Claim C4, amended. For every tick and every product of the snapshot whose book has an
  empty bid side or an empty ask side:
  \<^item> ROUND-2, product with a position limit: the round of the loop raises nothing, changes
    no state and maps the product to the empty order list; when \<^verbatim>\<open>run\<close> returns, the product
    is in the output with the empty list. ROUND-2 is read with its line 150 as the
    comment it was meant to be.
  \<^item> ROUND-3, product of \<^verbatim>\<open>pb_position_limits\<close>: \<^verbatim>\<open>pb_process_product\<close> raises nothing,
    changes no state and returns no orders; when \<^verbatim>\<open>run\<close> returns, the product is not in the
    output mapping.
  \<^item> ROUND-3, voucher: the intrinsic-value short does not read the voucher's book. When
    \<^verbatim>\<open>run\<close> returns, the identifier ends in a strike \<open>K\<close> and the orders of the voucher are
    those of the short at the underlying price \<open>U\<close> of the tick: none when \<open>U \<le> K\<close> or the
    capacity \<open>200 + position\<close> is at most 0, and otherwise one sale of \<open>min(10, capacity)\<close>
    at \<open>floor((U - K) * 0.95)\<close>, whatever the sides of the voucher's book.
  \<^item> ROUND-1, product with a position limit: when \<^verbatim>\<open>run\<close> returns, the product is in the
    output mapping. The round of the loop leaves the histories as they are and maps the
    product to the orders of the book walk over the side that is there, against the
    average of the stored history of the product when it has one, and against the
    fallback price (10000 for RAINFOREST_RESIN, 1000 otherwise) when it has none;
    SQUID_INK gets the empty list. A stored history that cannot be averaged (an empty
    list, or a list with an entry that is no number) makes the round raise.
\<close>

theorem missing_market_data:
  assumes "one_sided state product"
  shows "(POSITION_LIMITS product \<noteq> None \<longrightarrow>
            r2_product state product (self2, result) = Inr (self2, result(product \<mapsto> [])))
       \<and> (r2_run self2 state = Inr ((result2, c2, b2), self2') \<and> POSITION_LIMITS product \<noteq> None \<longrightarrow>
            result2 product = Some [])
       \<and> (pb_position_limits product \<noteq> None \<longrightarrow>
            pb_process_product self3 product state = Inr ([], self3))
       \<and> (r3_run self3 state = Inr ((result3, c3, b3), self3') \<and> pb_position_limits product \<noteq> None \<longrightarrow>
            result3 product = None)
       \<and> (r1_run state = Inr (result1, c1, b1) \<longrightarrow> result1 product \<noteq> None)
       \<and> (position_limits product = Some L \<and> map_of (order_depths state) product = Some depth
            \<and> map_of d (JStr product) = None \<longrightarrow>
            r1_product state product (JObj d, result) =
              Inr (JObj d, result(product \<mapsto>
                (if product = ''SQUID_INK'' then []
                 else book_walk product (if product = ''RAINFOREST_RESIN'' then 10000 else 1000) L
                        depth (position_get state product)))))
       \<and> (position_limits product = Some L \<and> map_of (order_depths state) product = Some depth
            \<and> map_of d (JStr product) = Some (JArr h) \<and> average h = Inr F \<longrightarrow>
            r1_product state product (JObj d, result) =
              Inr (JObj d, result(product \<mapsto>
                (if product = ''SQUID_INK'' then []
                 else book_walk product F L depth (position_get state product)))))
       \<and> (position_limits product = Some L \<and> map_of d (JStr product) = Some (JArr h)
            \<and> average h = Inl e \<longrightarrow>
            r1_product state product (JObj d, result) = Inl e)
       \<and> (r3_run self3 state = Inr ((result3, c3, b3), self3')
            \<and> startswith product ''VOLCANIC_ROCK_VOUCHER'' \<longrightarrow>
            (\<exists>K. strike product = Inr K
               \<and> emitted result3 product =
                   (if vr_price (r3_enter self3 state) \<le> real_of_int K
                       \<or> 200 + position_get state product \<le> 0
                    then []
                    else [\<lparr>symbol = product,
                           price = \<lfloor>(vr_price (r3_enter self3 state) - real_of_int K) * 0.95\<rfloor>,
                           quantity = - min 10 (200 + position_get state product)\<rparr>])))"
proof (intro conjI impI)
  assume "POSITION_LIMITS product \<noteq> None"
  then obtain L2 where "POSITION_LIMITS product = Some L2" by auto
  from r2_product_one_sided[OF assms this]
  show "r2_product state product (self2, result) = Inr (self2, result(product \<mapsto> []))" .
next
  assume "r2_run self2 state = Inr ((result2, c2, b2), self2') \<and> POSITION_LIMITS product \<noteq> None"
  with assms show "result2 product = Some []" by (auto intro: r2_run_one_sided)
next
  assume "pb_position_limits product \<noteq> None"
  then obtain L3 where "pb_position_limits product = Some L3" by auto
  from pb_process_product_one_sided[OF assms this]
  show "pb_process_product self3 product state = Inr ([], self3)" .
next
  assume "r3_run self3 state = Inr ((result3, c3, b3), self3') \<and> pb_position_limits product \<noteq> None"
  with assms show "result3 product = None" by (auto intro: r3_run_one_sided)
next
  assume "r1_run state = Inr (result1, c1, b1)"
  from r1_run_listed[OF this one_sided_key[OF assms]] show "result1 product \<noteq> None" .
next
  assume h: "position_limits product = Some L \<and> map_of (order_depths state) product = Some depth
            \<and> map_of d (JStr product) = None"
  with assms have "buy_orders depth = [] \<or> sell_orders depth = []" by (simp add: one_sided_def)
  with h r1_product_one_sided[of state product depth L d result]
  show "r1_product state product (JObj d, result) =
              Inr (JObj d, result(product \<mapsto>
                (if product = ''SQUID_INK'' then []
                 else book_walk product (if product = ''RAINFOREST_RESIN'' then 10000 else 1000) L
                        depth (position_get state product))))" by simp
next
  assume h: "position_limits product = Some L \<and> map_of (order_depths state) product = Some depth
            \<and> map_of d (JStr product) = Some (JArr h) \<and> average h = Inr F"
  with assms have "buy_orders depth = [] \<or> sell_orders depth = []" by (simp add: one_sided_def)
  with h r1_product_stored_history[of state product depth L d "JArr h" result]
  show "r1_product state product (JObj d, result) =
              Inr (JObj d, result(product \<mapsto>
                (if product = ''SQUID_INK'' then []
                 else book_walk product F L depth (position_get state product))))"
    by (simp add: r1_fair_price_list)
next
  assume h: "position_limits product = Some L \<and> map_of d (JStr product) = Some (JArr h)
            \<and> average h = Inl e"
  from assms obtain depth0 where d0: "map_of (order_depths state) product = Some depth0"
    and "buy_orders depth0 = [] \<or> sell_orders depth0 = []"
    by (auto simp: one_sided_def split: option.splits)
  with h r1_product_stored_history[of state product depth0 L d "JArr h" result]
  show "r1_product state product (JObj d, result) = Inl e"
    by (simp add: r1_fair_price_list)
next
  assume h: "r3_run self3 state = Inr ((result3, c3, b3), self3')
            \<and> startswith product ''VOLCANIC_ROCK_VOUCHER''"
  from one_sided_key[OF assms] have "map_of (order_depths state) product \<noteq> None"
    by (simp add: dict_keys_lookup)
  with h r3_run_voucher_orders[of self3 state result3 c3 b3 self3' product]
  show "\<exists>K. strike product = Inr K
               \<and> emitted result3 product =
                   (if vr_price (r3_enter self3 state) \<le> real_of_int K
                       \<or> 200 + position_get state product \<le> 0
                    then []
                    else [\<lparr>symbol = product,
                           price = \<lfloor>(vr_price (r3_enter self3 state) - real_of_int K) * 0.95\<rfloor>,
                           quantity = - min 10 (200 + position_get state product)\<rparr>])"
    by simp
qed

text \<open>
  A tick of ROUND-2 with a two-sided CROISSANTS book and a KELP book without bids: \<^verbatim>\<open>run\<close>
  returns, with the empty order list for KELP. ROUND-1 at a KELP book with the only ask
  \<^verbatim>\<open>{900: -5}\<close>: with the stored history \<^verbatim>\<open>[800, 850]\<close> the fair price is 825 and nothing is
  bought; with no history the fair price is 1000 and the ask is bought. A first tick of
  ROUND-3 with a voucher of strike 10000 whose book is empty: one sale of 10 at
  \<open>floor(500 * 0.95) = 475\<close>.
\<close>

theorem missing_market_data_witness:
  "(\<exists>result b self'.
     r2_run r2_init \<lparr>traderData = Blob_empty, timestamp = 0,
           order_depths = [(''CROISSANTS'', \<lparr>buy_orders = [(4000, 5)], sell_orders = [(4004, - 3)]\<rparr>),
                           (''KELP'', \<lparr>buy_orders = [], sell_orders = [(900, - 5)]\<rparr>)],
           position = Map.empty\<rparr> = Inr ((result, 0, b), self')
     \<and> result ''KELP'' = Some [])
   \<and> r1_product \<lparr>traderData = Blob_empty, timestamp = 0,
           order_depths = [(''KELP'', \<lparr>buy_orders = [], sell_orders = [(900, - 5)]\<rparr>)],
           position = Map.empty\<rparr> ''KELP''
        (JObj [(JStr ''KELP'', JArr [JNum 800, JNum 850])], Map.empty)
      = Inr (JObj [(JStr ''KELP'', JArr [JNum 800, JNum 850])], [''KELP'' \<mapsto> []])
   \<and> r1_product \<lparr>traderData = Blob_empty, timestamp = 0,
           order_depths = [(''KELP'', \<lparr>buy_orders = [], sell_orders = [(900, - 5)]\<rparr>)],
           position = Map.empty\<rparr> ''KELP'' (JObj [], Map.empty)
      = Inr (JObj [], [''KELP'' \<mapsto> [\<lparr>symbol = ''KELP'', price = 900, quantity = 5\<rparr>]])
   \<and> (\<exists>result b self'.
     r3_run r3_init \<lparr>traderData = Blob_empty, timestamp = 0,
           order_depths = [(''VOLCANIC_ROCK_VOUCHER_10000'', \<lparr>buy_orders = [], sell_orders = []\<rparr>)],
           position = Map.empty\<rparr> = Inr ((result, 0, b), self')
     \<and> emitted result ''VOLCANIC_ROCK_VOUCHER_10000''
         = [\<lparr>symbol = ''VOLCANIC_ROCK_VOUCHER_10000'', price = 475, quantity = - 10\<rparr>])"
proof (intro conjI)
  let ?s = "\<lparr>traderData = Blob_empty, timestamp = 0,
           order_depths = [(''CROISSANTS'', \<lparr>buy_orders = [(4000, 5)], sell_orders = [(4004, - 3)]\<rparr>),
                           (''KELP'', \<lparr>buy_orders = [], sell_orders = [(900, - 5)]\<rparr>)],
           position = Map.empty\<rparr>"
  have "\<exists>result b self'. r2_run r2_init ?s = Inr ((result, 0, b), self')"
    by (simp add: py_defs strategy_defs r2_defs Let_def)
  then obtain result b self' where run: "r2_run r2_init ?s = Inr ((result, 0, b), self')" by blast
  have one: "one_sided ?s ''KELP''" by (simp add: one_sided_def)
  have lim: "POSITION_LIMITS ''KELP'' \<noteq> None" by (simp add: POSITION_LIMITS_def)
  from missing_market_data[OF one, THEN conjunct2, THEN conjunct1, of r2_init result 0 b self'] run lim
  have "result ''KELP'' = Some []" by simp
  with run show "\<exists>result b self'. r2_run r2_init ?s = Inr ((result, 0, b), self')
     \<and> result ''KELP'' = Some []" by blast
next
  let ?k = "\<lparr>traderData = Blob_empty, timestamp = 0,
           order_depths = [(''KELP'', \<lparr>buy_orders = [], sell_orders = [(900, - 5)]\<rparr>)],
           position = Map.empty\<rparr>"
  let ?depth = "\<lparr>buy_orders = [], sell_orders = [(900, - 5)]\<rparr>"
  let ?d = "[(JStr ''KELP'', JArr [JNum 800, JNum 850])]"
  have one: "one_sided ?k ''KELP''" by (simp add: one_sided_def)
  have lim: "position_limits ''KELP'' = Some 50" by (simp add: position_limits_def)
  have dep: "map_of (order_depths ?k) ''KELP'' = Some ?depth" by simp
  have hist: "map_of ?d (JStr ''KELP'') = Some (JArr [JNum 800, JNum 850])" by simp
  have avg: "average [JNum 800, JNum 850] = Inr 825" by (simp add: average_def)
  have walk: "book_walk ''KELP'' 825 50 ?depth (position_get ?k ''KELP'') = []"
    by (simp add: py_defs strategy_defs Let_def)
  have "r1_product ?k ''KELP'' (JObj ?d, Map.empty) =
          Inr (JObj ?d, Map.empty(''KELP'' \<mapsto>
                (if ''KELP'' = ''SQUID_INK'' then []
                 else book_walk ''KELP'' 825 50 ?depth (position_get ?k ''KELP''))))"
    by (rule missing_market_data[OF one, THEN conjunct2, THEN conjunct2, THEN conjunct2,
          THEN conjunct2, THEN conjunct2, THEN conjunct2, THEN conjunct1, THEN mp])
      (intro conjI lim dep, rule hist, rule avg)
  with walk show "r1_product ?k ''KELP'' (JObj ?d, Map.empty) = Inr (JObj ?d, [''KELP'' \<mapsto> []])"
    by simp
next
  let ?k = "\<lparr>traderData = Blob_empty, timestamp = 0,
           order_depths = [(''KELP'', \<lparr>buy_orders = [], sell_orders = [(900, - 5)]\<rparr>)],
           position = Map.empty\<rparr>"
  let ?depth = "\<lparr>buy_orders = [], sell_orders = [(900, - 5)]\<rparr>"
  have one: "one_sided ?k ''KELP''" by (simp add: one_sided_def)
  have lim: "position_limits ''KELP'' = Some 50" by (simp add: position_limits_def)
  have dep: "map_of (order_depths ?k) ''KELP'' = Some ?depth" by simp
  have hist: "map_of ([] :: (json, json) dict) (JStr ''KELP'') = None" by simp
  have walk: "book_walk ''KELP'' 1000 50 ?depth (position_get ?k ''KELP'')
                = [\<lparr>symbol = ''KELP'', price = 900, quantity = 5\<rparr>]"
    by (simp add: py_defs strategy_defs Let_def)
  have "r1_product ?k ''KELP'' (JObj [], Map.empty) =
          Inr (JObj [], Map.empty(''KELP'' \<mapsto>
                (if ''KELP'' = ''SQUID_INK'' then []
                 else book_walk ''KELP'' (if ''KELP'' = ''RAINFOREST_RESIN'' then 10000 else 1000) 50
                        ?depth (position_get ?k ''KELP''))))"
    by (rule missing_market_data[OF one, THEN conjunct2, THEN conjunct2, THEN conjunct2,
          THEN conjunct2, THEN conjunct2, THEN conjunct1, THEN mp])
      (intro conjI lim dep hist)
  with walk show "r1_product ?k ''KELP'' (JObj [], Map.empty)
      = Inr (JObj [], [''KELP'' \<mapsto> [\<lparr>symbol = ''KELP'', price = 900, quantity = 5\<rparr>]])"
    by simp
next
  let ?v = "\<lparr>traderData = Blob_empty, timestamp = 0,
           order_depths = [(''VOLCANIC_ROCK_VOUCHER_10000'', \<lparr>buy_orders = [], sell_orders = []\<rparr>)],
           position = Map.empty\<rparr>"
  let ?p = "''VOLCANIC_ROCK_VOUCHER_10000''"
  have "\<exists>result b self'. r3_run r3_init ?v = Inr ((result, 0, b), self')"
    by (simp add: py_defs strategy_defs r3_defs Let_def)
  then obtain result b self' where run: "r3_run r3_init ?v = Inr ((result, 0, b), self')" by blast
  have one: "one_sided ?v ?p" by (simp add: one_sided_def)
  have v: "startswith ?p ''VOLCANIC_ROCK_VOUCHER''" by (simp add: startswith_def)
  have k: "strike ?p = Inr 10000" by (simp add: strike_def py_defs)
  have u: "vr_price (r3_enter r3_init ?v) = 10500"
    by (simp add: r3_enter_def py_defs r3_defs Let_def)
  have pos: "position_get ?v ?p = 0" by (simp add: position_get_def)
  have "\<exists>K. strike ?p = Inr K
               \<and> emitted result ?p =
                   (if vr_price (r3_enter r3_init ?v) \<le> real_of_int K
                       \<or> 200 + position_get ?v ?p \<le> 0
                    then []
                    else [\<lparr>symbol = ?p,
                           price = \<lfloor>(vr_price (r3_enter r3_init ?v) - real_of_int K) * 0.95\<rfloor>,
                           quantity = - min 10 (200 + position_get ?v ?p)\<rparr>])"
    by (rule missing_market_data[OF one, THEN conjunct2, THEN conjunct2, THEN conjunct2,
          THEN conjunct2, THEN conjunct2, THEN conjunct2, THEN conjunct2, THEN conjunct2,
          THEN mp]) (intro conjI, rule run, rule v)
  with k u pos have "emitted result ?p = [\<lparr>symbol = ?p, price = 475, quantity = - 10\<rparr>]"
    by auto
  with run show "\<exists>result b self'. r3_run r3_init ?v = Inr ((result, 0, b), self')
     \<and> emitted result ?p = [\<lparr>symbol = ?p, price = 475, quantity = - 10\<rparr>]" by blast
qed

subsection \<open>The adaptive buffer\<close>

lemma py_numbers_snoc:
  "py_numbers h = Some ns \<Longrightarrow> py_numbers (h @ [JNum x]) = Some (ns @ [x])"
  by (induction h arbitrary: ns) (auto split: option.splits)

lemma py_numbers_tl: "py_numbers h = Some ns \<Longrightarrow> py_numbers (tl h) = Some (tl ns)"
  by (cases h) (auto split: option.splits)

lemma py_numbers_fifo:
  assumes "py_numbers h = Some ns"
  shows "py_numbers (fifo_push n h (JNum x)) = Some (fifo_push n ns x)"
  using py_numbers_snoc[OF assms, of x] py_numbers_length[OF assms]
  by (auto simp: fifo_push_def dest: py_numbers_tl)

lemma fifo_push_length: "length h \<le> n \<Longrightarrow> length (fifo_push n h x) \<le> n"
  by (auto simp: fifo_push_def)

lemma update_dynamic_buffers_fifo:
  assumes "map_of (spread_history (trader_data_r2 self)) (JStr product) = Some (JArr h)"
  shows "update_dynamic_buffers self product x =
     (let history = fifo_push 20 h (JNum x);
          self1 = self\<lparr>trader_data_r2 := (trader_data_r2 self)
                    \<lparr>spread_history :=
                       dict_set (spread_history (trader_data_r2 self)) (JStr product) (JArr history)\<rparr>\<rparr>
      in if length history \<ge> 5 then
           (case py_numbers history of
              None \<Rightarrow> Inl TypeError
            | Some ns \<Rightarrow>
                (case dynamic_params self product of
                   None \<Rightarrow> Inl KeyError
                 | Some params \<Rightarrow>
                     Inr (self1\<lparr>dynamic_params := (dynamic_params self)(product \<mapsto>
                            params\<lparr>current_buffer :=
                              max (min_buffer params)
                                (min (max_buffer params)
                                   (statistics_median ns * buffer_multiplier params))\<rparr>)\<rparr>)))
         else Inr self1)"
  using assms by (auto simp: update_dynamic_buffers_def fifo_push_def Let_def split: option.splits)

lemma update_dynamic_buffers_spec:
  assumes h: "map_of (spread_history (trader_data_r2 self)) (JStr product) = Some (JArr h)"
    and ns: "py_numbers h = Some ns"
    and ps: "dynamic_params self product = Some ps"
  shows "\<exists>self'. update_dynamic_buffers self product x = Inr self'
     \<and> map_of (spread_history (trader_data_r2 self')) (JStr product)
          = Some (JArr (fifo_push 20 h (JNum x)))
     \<and> dynamic_params self' product = Some (spec_buffer ps (fifo_push 20 ns x))"
proof -
  have n: "py_numbers (fifo_push 20 h (JNum x)) = Some (fifo_push 20 ns x)"
    by (rule py_numbers_fifo[OF ns])
  from py_numbers_length[OF n]
  have len: "length (fifo_push 20 ns x) = length (fifo_push 20 h (JNum x))" .
  show ?thesis
    by (simp add: update_dynamic_buffers_fifo[OF h] Let_def n ps len map_of_dict_set
        spec_buffer_def clamp_def)
qed

lemma r2_run_buffers:
  assumes "r2_run self state = Inr ((result, c, b), self')"
  shows "dynamic_params self' = dynamic_params self
     \<and> spread_history (trader_data_r2 self')
         = spread_history (restore restore_key2 trader_data_keys2 (trader_data_r2 self) (traderData state))
     \<and> b = json_dumps (trader_data2_json (trader_data_r2 self'))"
proof -
  from r2_run_Inr[OF assms] obtain self2 where
    l: "r2_loop state (dict_keys (order_depths state))
             (self\<lparr>trader_data_r2 := restore restore_key2 trader_data_keys2 (trader_data_r2 self)
                                        (traderData state)\<rparr>, Map.empty) = Inr (self2, result)"
    and s: "self' = self2\<lparr>trader_data_r2 := (trader_data_r2 self2)
                      \<lparr>last_timestamp := JNum (real_of_int (timestamp state))\<rparr>\<rparr>"
    and b: "b = json_dumps (trader_data2_json (trader_data_r2 self'))" by blast
  from r2_loop_facts[OF l] s b show ?thesis by simp
qed

text \<open>
  Claim C9, as stated, on a first tick of ROUND-2 with a two-sided PICNIC_BASKET1 book
  (bid 100, ask 104): the claim appends the spread 4 to the basket's history; \<^verbatim>\<open>run\<close>
  returns with the trader as it was, the history still empty. ROUND-2 is read with its line 150
  as the comment it was meant to be.
\<close>

theorem buffer_maintenance_counterexample:
  "r2_run r2_init \<lparr>traderData = Blob_empty, timestamp = 0,
           order_depths = [(''PICNIC_BASKET1'', \<lparr>buy_orders = [(100, 3)], sell_orders = [(104, - 3)]\<rparr>)],
           position = Map.empty\<rparr>
     = Inr (([''PICNIC_BASKET1'' \<mapsto> []], 0, json_dumps (trader_data2_json (trader_data_r2 r2_init))),
            r2_init)
   \<and> map_of (spread_history (trader_data_r2 r2_init)) (JStr ''PICNIC_BASKET1'') = Some (JArr [])"
  by (simp add: py_defs strategy_defs r2_defs Let_def)

text \<open>
  Claim C9, amended. \<^verbatim>\<open>update_dynamic_buffers(product, spread)\<close>, for a product with buffer
  parameters whose spread history is a list of numbers, raises nothing, appends the
  spread to the history (first in, first out: the oldest entry goes when the length
  exceeds 20, so a history of at most 20 stays so) and sets \<^verbatim>\<open>current_buffer\<close> to
  \<open>clamp(median(history) * buffer_multiplier, min_buffer, max_buffer)\<close> once the history
  holds five observations, keeping the parameters as they are below that. \<^verbatim>\<open>run\<close> never
  calls it: a tick leaves the buffer parameters as they were and the spread histories as
  restored from the blob, and the blob it returns is the encoding of \<^verbatim>\<open>self.trader_data\<close>,
  which holds the spread histories and no buffer. ROUND-2 is read with its line 150
  as the comment it was meant to be.
\<close>

theorem buffer_maintenance:
  "(map_of (spread_history (trader_data_r2 self)) (JStr product) = Some (JArr h)
       \<and> py_numbers h = Some ns \<and> dynamic_params self product = Some ps \<longrightarrow>
      (\<exists>self1. update_dynamic_buffers self product x = Inr self1
         \<and> map_of (spread_history (trader_data_r2 self1)) (JStr product)
              = Some (JArr (fifo_push 20 h (JNum x)))
         \<and> (length h \<le> 20 \<longrightarrow> length (fifo_push 20 h (JNum x)) \<le> 20)
         \<and> dynamic_params self1 product = Some (spec_buffer ps (fifo_push 20 ns x))))
   \<and> (r2_run self state = Inr ((result, c, b), self') \<longrightarrow>
        dynamic_params self' = dynamic_params self
        \<and> spread_history (trader_data_r2 self')
            = spread_history (restore restore_key2 trader_data_keys2 (trader_data_r2 self)
                               (traderData state))
        \<and> b = json_dumps (trader_data2_json (trader_data_r2 self')))"
  using update_dynamic_buffers_spec[of self product h ns ps x] r2_run_buffers[of self state result c b self']
    fifo_push_length[of h 20 "JNum x"]
  by blast

text \<open>
  PICNIC_BASKET1 with the spreads 2, 4, 6, 8 in its history and the new spread 5: the
  median is 5, times 2.2 is 11, clamped to the maximum 10.
\<close>

theorem buffer_maintenance_witness:
  "\<exists>self1.
     update_dynamic_buffers
       (r2_init\<lparr>trader_data_r2 := (trader_data_r2 r2_init)
          \<lparr>spread_history := [(JStr ''PICNIC_BASKET1'', JArr [JNum 2, JNum 4, JNum 6, JNum 8])]\<rparr>\<rparr>)
       ''PICNIC_BASKET1'' 5 = Inr self1
     \<and> map_of (spread_history (trader_data_r2 self1)) (JStr ''PICNIC_BASKET1'')
          = Some (JArr [JNum 2, JNum 4, JNum 6, JNum 8, JNum 5])
     \<and> dynamic_params self1 ''PICNIC_BASKET1''
          = Some \<lparr>buffer_multiplier = 2.2, min_buffer = 2.0, max_buffer = 10.0, current_buffer = 10\<rparr>"
proof -
  let ?self = "r2_init\<lparr>trader_data_r2 := (trader_data_r2 r2_init)
          \<lparr>spread_history := [(JStr ''PICNIC_BASKET1'', JArr [JNum 2, JNum 4, JNum 6, JNum 8])]\<rparr>\<rparr>"
  let ?ps = "\<lparr>buffer_multiplier = 2.2, min_buffer = 2.0, max_buffer = 10.0, current_buffer = 3.0\<rparr>"
  have a: "map_of (spread_history (trader_data_r2 ?self)) (JStr ''PICNIC_BASKET1'')
             = Some (JArr [JNum 2, JNum 4, JNum 6, JNum 8])" by simp
  have b: "py_numbers [JNum 2, JNum 4, JNum 6, JNum 8] = Some [2, 4, 6, 8]" by simp
  have c: "dynamic_params ?self ''PICNIC_BASKET1'' = Some ?ps" by (simp add: r2_init_def)
  have d: "fifo_push 20 [JNum 2, JNum 4, JNum 6, JNum 8] (JNum 5)
             = [JNum 2, JNum 4, JNum 6, JNum 8, JNum 5]" by (simp add: fifo_push_def)
  have e: "spec_buffer ?ps (fifo_push 20 [2, 4, 6, 8] 5)
             = \<lparr>buffer_multiplier = 2.2, min_buffer = 2.0, max_buffer = 10.0, current_buffer = 10\<rparr>"
    by (simp add: spec_buffer_def fifo_push_def statistics_median_def clamp_def)
  from buffer_maintenance[THEN conjunct1, of ?self "''PICNIC_BASKET1''"
      "[JNum 2, JNum 4, JNum 6, JNum 8]" "[2, 4, 6, 8]" ?ps 5] a b c d e
  show ?thesis by simp
qed

subsection \<open>The round trip of the state\<close>

lemma fold_dict_set:
  "map_of (fold (\<lambda>(k, v) d'. dict_set d' k v) xs d) = map_of d ++ map_of (rev xs)"
proof (induction xs arbitrary: d)
  case Nil
  then show ?case by simp
next
  case (Cons kv xs)
  obtain k v where kv: "kv = (k, v)" by (cases kv)
  show ?case
    by (simp add: kv Cons.IH map_of_dict_set fun_eq_iff map_add_def split: option.splits)
qed

lemma map_of_keyed:
  "map_of (map (\<lambda>k. (k, f k)) ks) = (\<lambda>k. if k \<in> set ks then Some (f k) else None)"
  by (induction ks) (auto simp: fun_eq_iff)

lemma map_of_rev_dict_items: "map_of (rev (dict_items d)) = map_of d"
proof
  fix k
  have "map_of (rev (dict_items d)) k
      = (if k \<in> set (dict_keys d) then Some (the (map_of d k)) else None)"
    by (simp add: dict_items_def rev_map map_of_keyed)
  also have "\<dots> = map_of d k"
    by (cases "map_of d k") (auto simp: dict_keys_lookup)
  finally show "map_of (rev (dict_items d)) k = map_of d k" .
qed

lemma dict_update_obj:
  "\<exists>d'. dict_update d (JObj kvs) = (None, d') \<and> map_of d' = map_of d ++ map_of kvs"
  by (simp add: dict_update_def fold_dict_set map_of_rev_dict_items)

lemma trader_data_json_items:
  "dict_items [(JStr ''last_timestamp'', a), (JStr ''price_history'', p), (JStr ''spread_history'', s)]
     = [(JStr ''last_timestamp'', a), (JStr ''price_history'', p), (JStr ''spread_history'', s)]"
  by (simp add: dict_items_def dict_keys_def)

lemma restore_serialized:
  "\<exists>p s. restore restore_key trader_data_keys (trader_data r3_init) (json_dumps (trader_data_json td))
       = \<lparr>last_timestamp = last_timestamp td, price_history = p, spread_history = s\<rparr>
     \<and> map_of p = map_of (price_history td)
     \<and> map_of s = map_of (spread_history (trader_data r3_init)) ++ map_of (spread_history td)"
proof -
  from dict_update_obj[of "[]" "price_history td"] obtain p where
    p: "dict_update [] (JObj (price_history td)) = (None, p)"
    and mp: "map_of p = map_of (price_history td)" by auto
  from dict_update_obj[of "spread_history (trader_data r3_init)" "spread_history td"] obtain s where
    s: "dict_update (spread_history (trader_data r3_init)) (JObj (spread_history td)) = (None, s)"
    and ms: "map_of s = map_of (spread_history (trader_data r3_init)) ++ map_of (spread_history td)"
    by auto
  have "restore restore_key trader_data_keys (trader_data r3_init) (json_dumps (trader_data_json td))
       = \<lparr>last_timestamp = last_timestamp td, price_history = p, spread_history = s\<rparr>"
    using p s[unfolded r3_init_def, simplified]
    by (simp add: restore_def json_dumps_def json_loads_def restore_body_def trader_data_json_def
        trader_data_json_items restore_key_def r3_init_def)
  with mp ms show ?thesis by blast
qed

lemma baskets_absorbed:
  assumes "has_baskets td"
  shows "map_of (spread_history (trader_data r3_init)) ++ map_of (spread_history td)
           = map_of (spread_history td)"
proof
  fix k
  show "(map_of (spread_history (trader_data r3_init)) ++ map_of (spread_history td)) k
          = map_of (spread_history td) k"
    using assms by (auto simp: has_baskets_def r3_init_def map_add_def split: option.splits)
qed

lemma update_seq_keeps:
  "map_of d k \<noteq> None \<Longrightarrow> map_of (snd (update_seq d xs)) k \<noteq> None"
proof (induction xs arbitrary: d)
  case Nil
  then show ?case by simp
next
  case (Cons x xs)
  show ?case
  proof (cases "key_value x")
    case (Inl e)
    with Cons.prems show ?thesis by simp
  next
    case (Inr kv)
    obtain k' v where kv: "kv = (k', v)" by (cases kv)
    show ?thesis
    proof (cases "hashable k'")
      case None
      with Inr kv Cons.prems show ?thesis by simp
    next
      case (Some k'')
      from Cons.prems have "map_of (dict_set d k'' v) k \<noteq> None" by (simp add: map_of_dict_set)
      from Cons.IH[OF this] Inr kv Some show ?thesis by simp
    qed
  qed
qed

lemma dict_update_keeps:
  assumes "map_of d k \<noteq> None"
  shows "map_of (snd (dict_update d x)) k \<noteq> None"
proof (cases x)
  case (JObj kvs)
  from assms show ?thesis
    by (auto simp: JObj dict_update_def fold_dict_set map_add_def split: option.splits)
next
  case (JArr xs)
  with update_seq_keeps[OF assms] show ?thesis by (simp add: dict_update_def)
next
  case (JStr s)
  with update_seq_keeps[OF assms] show ?thesis by (simp add: dict_update_def)
qed (use assms in \<open>simp_all add: dict_update_def\<close>)

lemma restore_key_keeps: "has_baskets td \<Longrightarrow> has_baskets (snd (restore_key td kv))"
proof -
  assume h: "has_baskets td"
  obtain key loaded where kv: "kv = (key, loaded)" by (cases kv)
  have "has_baskets (td\<lparr>spread_history := snd (dict_update (spread_history td) loaded)\<rparr>)"
    using h by (simp add: has_baskets_def dict_update_keeps)
  with h show ?thesis
    by (auto simp: kv restore_key_def has_baskets_def split: json.splits prod.splits)
qed

lemma restore_loop_keeps:
  "has_baskets td \<Longrightarrow> has_baskets (snd (restore_loop restore_key td kvs))"
proof (induction kvs arbitrary: td)
  case Nil
  then show ?case by simp
next
  case (Cons kv kvs)
  from restore_key_keeps[OF Cons.prems, of kv] Cons.IH show ?case
    by (cases "restore_key td kv") (auto split: option.splits)
qed

lemma restore_keeps:
  "has_baskets td \<Longrightarrow> has_baskets (restore restore_key trader_data_keys td b)"
  by (cases b)
    (auto simp: restore_def json_loads_def restore_body_def restore_loop_keeps split: json.splits)

lemma pb_process_product_spread:
  assumes "pb_process_product self p state = Inr (os, self')"
  shows "spread_history (trader_data self') = spread_history (trader_data self)
       \<and> vr_last_prices self' = vr_last_prices self"
  using assms
  by (auto simp: pb_process_product_def Let_def split: option.splits if_splits sum.splits)

lemma pb_loop_spread:
  "pb_loop state ps (self, result) = Inr (self', result') \<Longrightarrow>
   spread_history (trader_data self') = spread_history (trader_data self)"
proof (induction ps arbitrary: self result)
  case Nil
  then show ?case by simp
next
  case (Cons q ps)
  show ?case
  proof (cases "pb_position_limits q")
    case None
    with Cons show ?thesis by simp
  next
    case (Some L)
    with Cons.prems obtain os self1 where pp: "pb_process_product self q state = Inr (os, self1)"
      and l: "pb_loop state ps (self1, if os \<noteq> [] then result(q \<mapsto> os) else result)
                = Inr (self', result')"
      by (auto split: sum.splits)
    from Cons.IH[OF l] pb_process_product_spread[OF pp] show ?thesis by simp
  qed
qed

lemma r3_enter_trader_data:
  "trader_data (r3_enter self state)
     = restore restore_key trader_data_keys (trader_data self) (traderData state)"
  by (auto simp: r3_enter_def vr_update_market_data_def Let_def split: option.splits)

lemma r3_run_keeps_baskets:
  assumes "r3_run self state = Inr ((result, c, b), self')" and "has_baskets (trader_data self)"
  shows "has_baskets (trader_data self')"
proof -
  from r3_run_Inr[OF assms(1)] obtain result1 self3 where
    pl: "pb_loop state (dict_keys (order_depths state)) (r3_enter self state, result1)
             = Inr (self3, result)"
    and s: "self' = self3\<lparr>trader_data := (trader_data self3)
                      \<lparr>last_timestamp := JNum (real_of_int (timestamp state))\<rparr>\<rparr>" by blast
  from pb_loop_spread[OF pl] restore_keeps[OF assms(2), of "traderData state"]
  have "has_baskets (trader_data self3)"
    by (simp add: has_baskets_def r3_enter_trader_data)
  with s show ?thesis by (simp add: has_baskets_def)
qed

text \<open>
  Claim C3, as stated, for the z-score rolling window. After a first tick of ROUND-3 with a
  two-sided CROISSANTS book the trader holds the window \<open>[4002]\<close>; a fresh trader that
  restores the blob of that tick holds the empty window: the window is an attribute of
  \<^verbatim>\<open>Trader\<close> and no part of \<^verbatim>\<open>self.trader_data\<close>, which is all that is serialised.
\<close>

theorem state_round_trip_counterexample:
  "(case r3_run r3_init
           \<lparr>traderData = Blob_empty, timestamp = 100,
            order_depths = [(''CROISSANTS'', \<lparr>buy_orders = [(4000, 5)], sell_orders = [(4004, - 3)]\<rparr>)],
            position = Map.empty\<rparr> of
      Inl e \<Rightarrow> False
    | Inr ((result, c, b), self') \<Rightarrow>
        pb_croissant_history self' = [4002] \<and> pb_croissant_history (r3_resume b) = [])"
  by (simp add: py_defs strategy_defs r3_defs r3_resume_def Let_def)

text \<open>
  Claim C3, amended. For every state the ROUND-3 engine holds at the end of a tick that
  started with the two basket keys in its spread histories (as a fresh trader has them,
  and as every tick keeps them), the keys of its histories being strings: the blob the
  tick returns is the encoding of \<^verbatim>\<open>self.trader_data\<close>, and a fresh trader that restores it
  has the same last timestamp and the same value at every key of the price histories and
  of the spread histories. The other attributes are not in the blob: the fresh trader has
  the underlying price 10500, no last prices and an empty z-score window. (The hypothesis
  on the keys keeps the statement to the values whose encoding decodes to themselves.)
\<close>

theorem state_round_trip:
  assumes "r3_run self state = Inr ((result, c, b), self')" and "has_baskets (trader_data self)"
    and "str_keys (price_history (trader_data self'))"
    and "str_keys (spread_history (trader_data self'))"
  shows "b = json_dumps (trader_data_json (trader_data self'))
       \<and> last_timestamp (trader_data (r3_resume b)) = last_timestamp (trader_data self')
       \<and> map_of (price_history (trader_data (r3_resume b))) = map_of (price_history (trader_data self'))
       \<and> map_of (spread_history (trader_data (r3_resume b))) = map_of (spread_history (trader_data self'))
       \<and> has_baskets (trader_data self')
       \<and> vr_price (r3_resume b) = 10500 \<and> vr_last_prices (r3_resume b) = []
       \<and> pb_croissant_history (r3_resume b) = []"
proof -
  from r3_run_Inr[OF assms(1)] have b: "b = json_dumps (trader_data_json (trader_data self'))" by blast
  from r3_run_keeps_baskets[OF assms(1,2)] have hb: "has_baskets (trader_data self')" .
  from restore_serialized[of "trader_data self'"] obtain p s where
    r: "restore restore_key trader_data_keys (trader_data r3_init) (json_dumps (trader_data_json (trader_data self')))
       = \<lparr>last_timestamp = last_timestamp (trader_data self'), price_history = p, spread_history = s\<rparr>"
    and mp: "map_of p = map_of (price_history (trader_data self'))"
    and ms: "map_of s = map_of (spread_history (trader_data r3_init)) ++ map_of (spread_history (trader_data self'))"
    by blast
  from ms baskets_absorbed[OF hb] have ms': "map_of s = map_of (spread_history (trader_data self'))"
    by simp
  have "trader_data (r3_resume b)
      = \<lparr>last_timestamp = last_timestamp (trader_data self'), price_history = p, spread_history = s\<rparr>"
    using r b by (simp add: r3_resume_def)
  moreover have "vr_price (r3_resume b) = 10500 \<and> vr_last_prices (r3_resume b) = []
       \<and> pb_croissant_history (r3_resume b) = []"
    by (simp add: r3_resume_def r3_init_def)
  ultimately show ?thesis using b hb mp ms' by simp
qed

text \<open>
  A first tick with a two-sided KELP book: the trader ends with the KELP history
  \<open>[2002]\<close> and the timestamp 100, and so does a fresh trader that restores the blob.
\<close>

theorem state_round_trip_witness:
  "\<exists>result b self'.
     r3_run r3_init
       \<lparr>traderData = Blob_empty, timestamp = 100,
        order_depths = [(''KELP'', \<lparr>buy_orders = [(2000, 5)], sell_orders = [(2004, - 3)]\<rparr>)],
        position = Map.empty\<rparr> = Inr ((result, 0, b), self')
     \<and> map_of (price_history (trader_data self')) (JStr ''KELP'') = Some (JArr [JNum 2002])
     \<and> map_of (price_history (trader_data (r3_resume b))) (JStr ''KELP'') = Some (JArr [JNum 2002])
     \<and> last_timestamp (trader_data (r3_resume b)) = JNum 100"
proof -
  let ?s = "\<lparr>traderData = Blob_empty, timestamp = 100,
        order_depths = [(''KELP'', \<lparr>buy_orders = [(2000, 5)], sell_orders = [(2004, - 3)]\<rparr>)],
        position = Map.empty\<rparr>"
  have "\<exists>result b self'. r3_run r3_init ?s = Inr ((result, 0, b), self')
      \<and> price_history (trader_data self') = [(JStr ''KELP'', JArr [JNum 2002])]
      \<and> spread_history (trader_data self')
          = [(JStr ''PICNIC_BASKET1'', JArr []), (JStr ''PICNIC_BASKET2'', JArr [])]
      \<and> last_timestamp (trader_data self') = JNum 100"
    by (simp add: py_defs strategy_defs r3_defs Let_def)
  then obtain result b self' where run: "r3_run r3_init ?s = Inr ((result, 0, b), self')"
    and ph: "price_history (trader_data self') = [(JStr ''KELP'', JArr [JNum 2002])]"
    and sh: "spread_history (trader_data self')
          = [(JStr ''PICNIC_BASKET1'', JArr []), (JStr ''PICNIC_BASKET2'', JArr [])]"
    and t: "last_timestamp (trader_data self') = JNum 100" by blast
  from ph have k: "map_of (price_history (trader_data self')) (JStr ''KELP'') = Some (JArr [JNum 2002])"
    by simp
  have hb: "has_baskets (trader_data r3_init)" by (simp add: has_baskets_def r3_init_def)
  have k1: "str_keys (price_history (trader_data self'))" by (simp add: ph str_keys_def)
  have k2: "str_keys (spread_history (trader_data self'))" by (simp add: sh str_keys_def)
  note rt = state_round_trip[OF run hb k1 k2]
  from rt have "last_timestamp (trader_data (r3_resume b)) = last_timestamp (trader_data self')"
    by blast
  with t have t': "last_timestamp (trader_data (r3_resume b)) = JNum 100" by simp
  from rt have "map_of (price_history (trader_data (r3_resume b)))
      = map_of (price_history (trader_data self'))" by blast
  with k have "map_of (price_history (trader_data (r3_resume b))) (JStr ''KELP'')
      = Some (JArr [JNum 2002])" by simp
  with run k t' show ?thesis by blast
qed

end
